theory Spec2Isabelle
  imports Main "HOL-Library.Word" "HOL-Library.Multiset"
begin

section \<open>Strings and results\<close>

text \<open>
  Go strings are byte strings; they are modelled as \<^typ>\<open>string\<close> (a list of bytes).
  A Go \<open>error\<close> is modelled by its message, \<open>nil\<close> by the absence of one, and
  \<open>fmt.Errorf("...: %w", err)\<close> by prefixing the message. A function that returns
  \<open>(T, error)\<close> returns a \<open>go_result\<close>; a run-time panic (an index out of range) is
  the value \<open>Panic\<close>. Calls to the logger do not influence any result and are left out.
\<close>

datatype 'a go_result = Ok 'a | Err string | Panic

text \<open>\<open>strings.HasPrefix\<close> and \<open>strings.Contains\<close>.\<close>

fun HasPrefix :: "string \<Rightarrow> string \<Rightarrow> bool" where
  "HasPrefix s [] = True"
| "HasPrefix [] (p # ps) = False"
| "HasPrefix (c # cs) (p # ps) = (c = p \<and> HasPrefix cs ps)"

fun Contains :: "string \<Rightarrow> string \<Rightarrow> bool" where
  "Contains [] substr = (substr = [])"
| "Contains (c # cs) substr = (HasPrefix (c # cs) substr \<or> Contains cs substr)"

text \<open>
  \<open>strings.ToUpper\<close>. On a string of ASCII bytes (all below \<open>utf8.RuneSelf\<close>) it
  works on the bytes: \<open>'a'..'z'\<close> lose \<open>'a' - 'A'\<close>, every other byte stays. Any
  other string is mapped rune by rune, \<open>strings.Map(unicode.ToUpper, s)\<close>; that
  function depends on the Unicode tables of the library and is the parameter
  \<open>mapUpper\<close>.
\<close>

definition ToUpper_byte :: "char \<Rightarrow> char" where
  "ToUpper_byte c =
     (let n = (of_char c :: nat) in if 97 \<le> n \<and> n \<le> 122 then char_of (n - 32) else c)"

definition isASCII :: "string \<Rightarrow> bool" where
  "isASCII s = list_all (\<lambda>c. (of_char c :: nat) < 128) s"

definition ToUpper :: "(string \<Rightarrow> string) \<Rightarrow> string \<Rightarrow> string" where
  "ToUpper mapUpper s = (if isASCII s then map ToUpper_byte s else mapUpper s)"

text \<open>
  \<open>strings.Split(s, sep)\<close> for a separator of one byte: the segments between the
  occurrences of \<open>sep\<close>, of which there is always at least one.
\<close>

fun Split :: "string \<Rightarrow> char \<Rightarrow> string list" where
  "Split [] sep = [[]]"
| "Split (c # cs) sep =
     (if c = sep then [] # Split cs sep
      else (case Split cs sep of [] \<Rightarrow> [[c]] | w # ws \<Rightarrow> (c # w) # ws))"

section \<open>Data model (package model)\<close>

text \<open>\<open>bigquery.FieldType\<close> is a string type; the six constants the pipeline produces.\<close>

type_synonym FieldType = string

definition StringFieldType :: FieldType where "StringFieldType = ''STRING''"
definition IntegerFieldType :: FieldType where "IntegerFieldType = ''INTEGER''"
definition FloatFieldType :: FieldType where "FloatFieldType = ''FLOAT''"
definition DateFieldType :: FieldType where "DateFieldType = ''DATE''"
definition TimestampFieldType :: FieldType where "TimestampFieldType = ''TIMESTAMP''"
definition BooleanFieldType :: FieldType where "BooleanFieldType = ''BOOLEAN''"

definition semanticTypes :: "FieldType list" where
  "semanticTypes = [StringFieldType, IntegerFieldType, FloatFieldType, DateFieldType,
     TimestampFieldType, BooleanFieldType]"

text \<open>\<open>bigquery.FieldSchema\<close> with the fields the pipeline reads and writes.\<close>

record FieldSchema =
  Name :: string
  Type :: FieldType
  Required :: bool

type_synonym Schema = "FieldSchema list"

record BQTable =
  table_Name :: string
  table_Schema :: Schema

record 'v DynamicRow =
  ColumnNames :: "string list"
  Values :: "'v list"

text \<open>
  The dynamic values a driver hands to \<open>Scan\<close> into an \<open>*any\<close>
  (\<open>database/sql/driver.Value\<close>): \<open>nil\<close>, \<open>[]byte\<close>, \<open>time.Time\<close>, \<open>int64\<close>,
  \<open>float64\<close>, \<open>bool\<close>, \<open>string\<close>. The representations of time and of floating
  point numbers are parameters.
\<close>

datatype ('t, 'f) any =
    AnyNil
  | AnyBytes string
  | AnyTime 't
  | AnyInt64 "64 word"
  | AnyFloat64 'f
  | AnyBool bool
  | AnyString string

subsection \<open>SchemasMatch\<close>

definition buildTypeMap :: "Schema \<Rightarrow> (string \<rightharpoonup> FieldType)" where
  "buildTypeMap s1 = foldl (\<lambda>mapS1 field. mapS1(Name field \<mapsto> Type field)) Map.empty s1"

definition collectMismatches :: "(string \<rightharpoonup> FieldType) \<Rightarrow> Schema \<Rightarrow> string list" where
  "collectMismatches mapS1 s2 =
     foldl (\<lambda>mismatches field.
        (case mapS1 (Name field) of
           None \<Rightarrow> mismatches @ [''missing:'' @ Name field]
         | Some t \<Rightarrow> if t \<noteq> Type field then mismatches @ [''type:'' @ Name field]
                     else mismatches)) [] s2"

definition SchemasMatch :: "Schema \<Rightarrow> Schema \<Rightarrow> bool" where
  "SchemasMatch s1 s2 =
     (if length s1 \<noteq> length s2 then False
      else let mapS1 = buildTypeMap s1;
               mismatches = collectMismatches mapS1 s2
           in if length mismatches > 0 then False else True)"

text \<open>The (name, type) pairs of a schema, in which equality of schemas is stated.\<close>

definition namedTypes :: "Schema \<Rightarrow> (string \<times> FieldType) list" where
  "namedTypes s = map (\<lambda>f. (Name f, Type f)) s"

subsection \<open>ToSaveable\<close>

text \<open>
  The loop \<open>for i, colName := range r.ColumnNames { result[colName] = r.Values[i] }\<close>;
  reading \<open>r.Values[i]\<close> beyond the slice panics.
\<close>

fun ToSaveable_loop ::
  "string list \<Rightarrow> nat \<Rightarrow> 'v list \<Rightarrow> (string \<rightharpoonup> 'v) \<Rightarrow> (string \<rightharpoonup> 'v) go_result" where
  "ToSaveable_loop [] i vals result = Ok result"
| "ToSaveable_loop (colName # rest) i vals result =
     (if i < length vals then ToSaveable_loop rest (Suc i) vals (result(colName \<mapsto> vals ! i))
      else Panic)"

definition ToSaveable :: "'v DynamicRow \<Rightarrow> (string \<rightharpoonup> 'v) go_result" where
  "ToSaveable r = ToSaveable_loop (ColumnNames r) 0 (Values r) Map.empty"

section \<open>The source cursor (database/sql)\<close>

text \<open>
  What the driver reports for a result column: \<open>Name()\<close>, \<open>DatabaseTypeName()\<close> and
  \<open>Nullable()\<close>, whose second component says whether nullability is known.
\<close>

record ColumnType =
  col_Name :: string
  col_DatabaseTypeName :: string
  col_Nullable :: "bool \<times> bool"

text \<open>
  An \<open>*sql.Rows\<close>: the results of \<open>Columns()\<close> and \<open>ColumnTypes()\<close>, the rows that
  \<open>Next()\<close> delivers one after the other, each the list of its driver values, and the
  result of \<open>Err()\<close> once \<open>Next()\<close> has returned false. An error of the driver
  while it reads ends the iteration: \<open>Next()\<close> returns false and \<open>Err()\<close> reports
  the error, so every row that is delivered has been read. \<open>rows_lastcols\<close> is what
  \<open>Scan\<close> finds: the values of the row the cursor is positioned on, or the error that
  \<open>Scan\<close> returns when the cursor is not on a row.
\<close>

record 'r Rows =
  rows_Columns :: "string + string list"
  rows_ColumnTypes :: "string + ColumnType list"
  rows_pending :: "'r list list"
  rows_lastcols :: "string + 'r list"
  rows_Err :: "string option"

text \<open>A database handle answers a query with an error or a cursor.\<close>

type_synonym 'r DB = "string \<Rightarrow> string + 'r Rows"

text \<open>
  \<open>rows.Scan(dest...)\<close> with \<open>n\<close> destinations of type \<open>*any\<close>: it fails when the
  cursor is not on a row or when the number of destinations is not the number of columns
  of the row; assigning to an \<open>*any\<close> converts nothing and cannot fail.
\<close>

definition Scan :: "'r Rows \<Rightarrow> nat \<Rightarrow> string + 'r list" where
  "Scan rows n =
     (case rows_lastcols rows of
        Inl err \<Rightarrow> Inl err
      | Inr lastcols \<Rightarrow>
          if length lastcols \<noteq> n then Inl ''sql: wrong number of destination arguments in Scan''
          else Inr lastcols)"

section \<open>Row parsing (model/parser.go)\<close>

text \<open>\<open>Format\<close> stands for \<open>time.Time.Format\<close>.\<close>

fun convertValueToInterface ::
  "('t \<Rightarrow> string \<Rightarrow> string) \<Rightarrow> ('t, 'f) any \<Rightarrow> string \<Rightarrow> ('t, 'f) any" where
  "convertValueToInterface Format AnyNil dateFormat = AnyNil"
| "convertValueToInterface Format (AnyBytes v) dateFormat = AnyString v"
| "convertValueToInterface Format (AnyTime v) dateFormat = AnyString (Format v dateFormat)"
| "convertValueToInterface Format v dateFormat = v"

definition ParseDynamicRow ::
  "('t \<Rightarrow> string \<Rightarrow> string) \<Rightarrow> ('t, 'f) any Rows \<Rightarrow> string \<Rightarrow>
     string + ('t, 'f) any DynamicRow" where
  "ParseDynamicRow Format rows dateFormat =
     (case rows_Columns rows of
        Inl err \<Rightarrow> Inl (''failed to get columns: '' @ err)
      | Inr columns \<Rightarrow>
          (case Scan rows (length columns) of
             Inl err \<Rightarrow> Inl (''failed to scan row: '' @ err)
           | Inr values \<Rightarrow>
               Inr \<lparr>ColumnNames = columns,
                    Values = map (\<lambda>rawValue. convertValueToInterface Format rawValue dateFormat)
                               values\<rparr>))"

section \<open>Schema inference and table reconciliation\<close>

definition mysqlTypeToBigQueryType ::
  "(string \<Rightarrow> string) \<Rightarrow> string \<Rightarrow> FieldType go_result" where
  "mysqlTypeToBigQueryType mapUpper mysqlType =
     (case Split mysqlType CHR ''('' of
        [] \<Rightarrow> Panic
      | seg # _ \<Rightarrow>
          (let t = ToUpper mapUpper seg in
           if t \<in> set [''VARCHAR'', ''CHAR'', ''TEXT'', ''TINYTEXT'', ''MEDIUMTEXT'', ''LONGTEXT'']
             then Ok StringFieldType
           else if t \<in> set [''INT'', ''TINYINT'', ''SMALLINT'', ''MEDIUMINT'', ''BIGINT'']
             then Ok IntegerFieldType
           else if t \<in> set [''FLOAT'', ''DOUBLE'', ''DECIMAL''] then Ok FloatFieldType
           else if t \<in> set [''DATE''] then Ok DateFieldType
           else if t \<in> set [''DATETIME'', ''TIMESTAMP''] then Ok TimestampFieldType
           else if t \<in> set [''BOOLEAN'', ''BOOL''] then Ok BooleanFieldType
           else Ok StringFieldType))"


fun inferFields ::
  "(string \<Rightarrow> string) \<Rightarrow> ColumnType list \<Rightarrow> Schema \<Rightarrow> Schema go_result" where
  "inferFields mapUpper [] schema = Ok schema"
| "inferFields mapUpper (col # cols) schema =
     (case mysqlTypeToBigQueryType mapUpper (col_DatabaseTypeName col) of
        Ok bqType \<Rightarrow>
          (case col_Nullable col of
             (nullable, ok) \<Rightarrow>
               inferFields mapUpper cols
                 (schema @ [\<lparr>Name = col_Name col, Type = bqType,
                             Required = (ok \<and> \<not> nullable)\<rparr>]))
      | Err e \<Rightarrow> Err e
      | Panic \<Rightarrow> Panic)"

definition InferSchemaFromMySQL ::
  "(string \<Rightarrow> string) \<Rightarrow> 'r DB \<Rightarrow> string \<Rightarrow> Schema go_result" where
  "InferSchemaFromMySQL mapUpper db query =
     (case db query of
        Inl err \<Rightarrow> Err (''schema inference query failed: '' @ err)
      | Inr rows \<Rightarrow>
          (case rows_ColumnTypes rows of
             Inl err \<Rightarrow> Err (''failed to get column types for inference: '' @ err)
           | Inr columnTypes \<Rightarrow> inferFields mapUpper columnTypes []))"

subsection \<open>The destination client\<close>

text \<open>
  The BigQuery service is outside the program. A client is modelled by the answer the
  service gives to each call, and the effect of a function on the destination by the
  list of calls it makes, in order.
\<close>

record TableMetadata =
  md_Name :: string
  md_Schema :: Schema
  md_ETag :: string

type_synonym table_ref = "string \<times> string"

datatype WriteDisposition = WriteAppend | WriteTruncate | WriteEmpty

datatype bq_call =
    Metadata_call table_ref
  | Create_call table_ref string Schema
  | Update_call table_ref Schema string
  | Delete_call table_ref
  | LoaderRun_call table_ref string WriteDisposition
  | JobWait_call table_ref

record bq_Client =
  bq_Metadata :: "table_ref \<Rightarrow> string + TableMetadata"
  bq_Create :: "table_ref \<Rightarrow> string \<Rightarrow> Schema \<Rightarrow> string option"
  bq_Update :: "table_ref \<Rightarrow> Schema \<Rightarrow> string \<Rightarrow> string option"
  bq_Delete :: "table_ref \<Rightarrow> string option"
  bq_LoaderRun :: "table_ref \<Rightarrow> string \<Rightarrow> WriteDisposition \<Rightarrow> string option"
  bq_JobWait :: "table_ref \<Rightarrow> string option"
  bq_StatusErr :: "table_ref \<Rightarrow> string option"

subsection \<open>createOrUpdateTable\<close>

text \<open>The classification of a failed update, the local \<open>isCriticalError\<close>.\<close>

definition isCriticalError :: "string \<Rightarrow> bool" where
  "isCriticalError updateErr =
     ((Contains updateErr ''changed type'' \<or> Contains updateErr ''is missing'') \<and>
      Contains updateErr ''invalid'')"

definition createOrUpdateTable ::
  "bq_Client \<Rightarrow> string \<Rightarrow> BQTable \<Rightarrow> unit go_result \<times> bq_call list" where
  "createOrUpdateTable client datasetID table =
     (let tableRef = (datasetID, table_Name table) in
      case bq_Metadata client tableRef of
        Inl err \<Rightarrow>
          if Contains err ''Not found'' then
            (case bq_Create client tableRef (table_Name table) (table_Schema table) of
               Some err' \<Rightarrow>
                 (Err (''failed to create table: '' @ err'),
                  [Metadata_call tableRef,
                   Create_call tableRef (table_Name table) (table_Schema table)])
             | None \<Rightarrow>
                 (Ok (),
                  [Metadata_call tableRef,
                   Create_call tableRef (table_Name table) (table_Schema table)]))
          else (Err (''failed to get table metadata: '' @ err), [Metadata_call tableRef])
      | Inr metadata \<Rightarrow>
          if \<not> SchemasMatch (md_Schema metadata) (table_Schema table) then
            (case bq_Update client tableRef (table_Schema table) (md_ETag metadata) of
               Some updateErr \<Rightarrow>
                 if isCriticalError updateErr then
                   (case bq_Delete client tableRef of
                      Some delErr \<Rightarrow>
                        (Err (''failed to delete table with bad schema: '' @ delErr),
                         [Metadata_call tableRef,
                          Update_call tableRef (table_Schema table) (md_ETag metadata),
                          Delete_call tableRef])
                    | None \<Rightarrow>
                        (case bq_Create client tableRef (table_Name table) (table_Schema table) of
                           Some createErr \<Rightarrow>
                             (Err (''failed to recreate table with correct schema: '' @ createErr),
                              [Metadata_call tableRef,
                               Update_call tableRef (table_Schema table) (md_ETag metadata),
                               Delete_call tableRef,
                               Create_call tableRef (table_Name table) (table_Schema table)])
                         | None \<Rightarrow>
                             (Ok (),
                              [Metadata_call tableRef,
                               Update_call tableRef (table_Schema table) (md_ETag metadata),
                               Delete_call tableRef,
                               Create_call tableRef (table_Name table) (table_Schema table)])))
                 else
                   (Err (''failed to update table schema: '' @ updateErr),
                    [Metadata_call tableRef,
                     Update_call tableRef (table_Schema table) (md_ETag metadata)])
             | None \<Rightarrow>
                 (Ok (),
                  [Metadata_call tableRef,
                   Update_call tableRef (table_Schema table) (md_ETag metadata)]))
          else (Ok (), [Metadata_call tableRef]))"

section \<open>The extract-and-load cycle (pipeline/job.go)\<close>

text \<open>
  A \<open>model.Job\<close>. \<open>ParseFunc\<close> reads the row the cursor is positioned on; the only
  implementation of \<open>Savable\<close> is \<open>DynamicRow\<close>.
\<close>

record ('r, 'v) Job =
  job_Name :: string
  job_ConnectionString :: string
  job_Query :: string
  job_BigQueryTable :: string
  job_ParseFunc :: "'r Rows \<Rightarrow> string + 'v DynamicRow"

text \<open>
  The local variables of the extraction loop: the in-memory buffer and the three
  counters. The counters are Go \<open>int\<close>s that count rows held in memory; they are
  modelled as natural numbers.
\<close>

record extract_state =
  buf :: string
  totalRowsExtracted :: nat
  rowNum :: nat
  skippedRows :: nat

definition initial_state :: extract_state where
  "initial_state = \<lparr>buf = [], totalRowsExtracted = 0, rowNum = 0, skippedRows = 0\<rparr>"

text \<open>
  The loop \<open>for rows.Next() { ... }\<close> over the rows the cursor delivers. \<open>Encode\<close>
  stands for \<open>json.Encoder.Encode\<close> on the buffer: it yields the bytes it appends (one
  line), or an error and appends nothing.
\<close>

fun extractRows ::
  "((string \<rightharpoonup> 'v) \<Rightarrow> string + string) \<Rightarrow> ('r Rows \<Rightarrow> string + 'v DynamicRow) \<Rightarrow>
     'r Rows \<Rightarrow> 'r list list \<Rightarrow> extract_state \<Rightarrow> extract_state go_result" where
  "extractRows Encode ParseFunc rows [] st = Ok st"
| "extractRows Encode ParseFunc rows (r # rest) st =
     (let st1 = st\<lparr>rowNum := rowNum st + 1\<rparr> in
      case ParseFunc (rows\<lparr>rows_lastcols := Inr r\<rparr>) of
        Inl err \<Rightarrow>
          extractRows Encode ParseFunc rows rest (st1\<lparr>skippedRows := skippedRows st1 + 1\<rparr>)
      | Inr row \<Rightarrow>
          (case ToSaveable row of
             Panic \<Rightarrow> Panic
           | Err e \<Rightarrow> Err e
           | Ok saveable \<Rightarrow>
               (case Encode saveable of
                  Inl err \<Rightarrow> Err (''failed to write row to memory buffer: '' @ err)
                | Inr line \<Rightarrow>
                    extractRows Encode ParseFunc rows rest
                      (st1\<lparr>buf := buf st1 @ line,
                           totalRowsExtracted := totalRowsExtracted st1 + 1\<rparr>))))"

text \<open>The load of the buffer with truncate semantics, and the wait for its end.\<close>

definition loadBuffer :: "bq_Client \<Rightarrow> table_ref \<Rightarrow> string \<Rightarrow> unit go_result \<times> bq_call list" where
  "loadBuffer bqClient tableRef payload =
     (case bq_LoaderRun bqClient tableRef payload WriteTruncate of
        Some err \<Rightarrow>
          (Err (''failed to create BigQuery load job: '' @ err),
           [LoaderRun_call tableRef payload WriteTruncate])
      | None \<Rightarrow>
          (case bq_JobWait bqClient tableRef of
             Some err \<Rightarrow>
               (Err (''failed to wait for BigQuery job to complete: '' @ err),
                [LoaderRun_call tableRef payload WriteTruncate, JobWait_call tableRef])
           | None \<Rightarrow>
               (case bq_StatusErr bqClient tableRef of
                  Some err \<Rightarrow>
                    (Err (''BigQuery load job failed: '' @ err),
                     [LoaderRun_call tableRef payload WriteTruncate, JobWait_call tableRef])
                | None \<Rightarrow>
                    (Ok (),
                     [LoaderRun_call tableRef payload WriteTruncate, JobWait_call tableRef]))))"

definition executeJob ::
  "((string \<rightharpoonup> 'v) \<Rightarrow> string + string) \<Rightarrow> bq_Client \<Rightarrow> string \<Rightarrow> ('r, 'v) Job \<Rightarrow>
     'r DB option \<Rightarrow> unit go_result \<times> bq_call list" where
  "executeJob Encode bqClient datasetID job db =
     (case db of
        None \<Rightarrow> (Err ''database connection is nil'', [])
      | Some conn \<Rightarrow>
          (case conn (job_Query job) of
             Inl err \<Rightarrow> (Err (''failed to query database: '' @ err), [])
           | Inr rows \<Rightarrow>
               (case extractRows Encode (job_ParseFunc job) rows (rows_pending rows)
                       initial_state of
                  Panic \<Rightarrow> (Panic, [])
                | Err e \<Rightarrow> (Err e, [])
                | Ok st \<Rightarrow>
                    (case rows_Err rows of
                       Some err \<Rightarrow> (Err (''error during row iteration: '' @ err), [])
                     | None \<Rightarrow>
                         if totalRowsExtracted st = 0 then (Ok (), [])
                         else loadBuffer bqClient (datasetID, job_BigQueryTable job)
                                (buf st)))))"

text \<open>
  Notions in which the properties of the loop are stated: a row is skipped when the parse
  function fails on it; the line of a row is what the loop appends to the buffer for it,
  if the row is parsed, converted and serialized; the buffered lines of a sequence of
  rows are the lines of its rows, in order.
\<close>

definition rowSkipped ::
  "('r Rows \<Rightarrow> string + 'v DynamicRow) \<Rightarrow> 'r Rows \<Rightarrow> 'r list \<Rightarrow> bool" where
  "rowSkipped ParseFunc rows r =
     (case ParseFunc (rows\<lparr>rows_lastcols := Inr r\<rparr>) of Inl err \<Rightarrow> True | Inr row \<Rightarrow> False)"

definition rowLine ::
  "((string \<rightharpoonup> 'v) \<Rightarrow> string + string) \<Rightarrow> ('r Rows \<Rightarrow> string + 'v DynamicRow) \<Rightarrow>
     'r Rows \<Rightarrow> 'r list \<Rightarrow> string option" where
  "rowLine Encode ParseFunc rows r =
     (case ParseFunc (rows\<lparr>rows_lastcols := Inr r\<rparr>) of
        Inl err \<Rightarrow> None
      | Inr row \<Rightarrow>
          (case ToSaveable row of
             Ok saveable \<Rightarrow> (case Encode saveable of Inl err \<Rightarrow> None | Inr line \<Rightarrow> Some line)
           | Err e \<Rightarrow> None
           | Panic \<Rightarrow> None))"

definition rowEncodes ::
  "((string \<rightharpoonup> 'v) \<Rightarrow> string + string) \<Rightarrow> ('r Rows \<Rightarrow> string + 'v DynamicRow) \<Rightarrow>
     'r Rows \<Rightarrow> 'r list \<Rightarrow> bool" where
  "rowEncodes Encode ParseFunc rows r = (rowLine Encode ParseFunc rows r \<noteq> None)"

definition bufferedLines ::
  "((string \<rightharpoonup> 'v) \<Rightarrow> string + string) \<Rightarrow> ('r Rows \<Rightarrow> string + 'v DynamicRow) \<Rightarrow>
     'r Rows \<Rightarrow> 'r list list \<Rightarrow> string" where
  "bufferedLines Encode ParseFunc rows rs =
     concat (map (\<lambda>r. case rowLine Encode ParseFunc rows r of None \<Rightarrow> [] | Some line \<Rightarrow> line) rs)"

section \<open>Sample inputs\<close>

text \<open>
  A stand-in for the upper-casing of strings that are not ASCII. It maps the one such
  string used below, \<open>int\<close> written with a dotless i (U+0131, the bytes c4 b1), to
  \<open>INT\<close>, as \<open>unicode.ToUpper\<close> does.
\<close>

definition dotless_int :: string where
  "dotless_int = [CHR 0xC4, CHR 0xB1, CHR ''n'', CHR ''t'']"

definition ex_mapUpper :: "string \<Rightarrow> string" where
  "ex_mapUpper s = (if s = dotless_int then ''INT'' else s)"

text \<open>
  Concrete inputs on which the theorems below are instantiated: a table with three
  columns, of which the first is known to be non-nullable, the second known to be
  nullable and the third of unknown nullability.
\<close>

definition ex_cols :: "ColumnType list" where
  "ex_cols = [\<lparr>col_Name = ''id'', col_DatabaseTypeName = ''INT'', col_Nullable = (False, True)\<rparr>,
     \<lparr>col_Name = ''name'', col_DatabaseTypeName = ''VARCHAR'', col_Nullable = (True, True)\<rparr>,
     \<lparr>col_Name = ''created_at'', col_DatabaseTypeName = ''DATETIME'', col_Nullable = (False, False)\<rparr>]"

definition ex_rows :: "unit Rows" where
  "ex_rows = \<lparr>rows_Columns = Inr (map col_Name ex_cols), rows_ColumnTypes = Inr ex_cols,
     rows_pending = [], rows_lastcols = Inl ''sql: Scan called without calling Next'', rows_Err = None\<rparr>"

definition ex_db :: "unit DB" where
  "ex_db q = (if q = ''SELECT * FROM crm.accounts LIMIT 1'' then Inr ex_rows else Inl ''no such table'')"

definition ex_schema :: Schema where
  "ex_schema = [\<lparr>Name = ''id'', Type = IntegerFieldType, Required = True\<rparr>,
     \<lparr>Name = ''name'', Type = StringFieldType, Required = False\<rparr>,
     \<lparr>Name = ''created_at'', Type = TimestampFieldType, Required = False\<rparr>]"

text \<open>The inferred schema of that table, and three variants of it: the fields in another
  order and with other required flags, one field with another type, one field with another
  name.\<close>

definition ex_schema_reordered :: Schema where
  "ex_schema_reordered = [\<lparr>Name = ''created_at'', Type = TimestampFieldType, Required = True\<rparr>,
     \<lparr>Name = ''id'', Type = IntegerFieldType, Required = False\<rparr>,
     \<lparr>Name = ''name'', Type = StringFieldType, Required = False\<rparr>]"

definition ex_schema_retyped :: Schema where
  "ex_schema_retyped = [\<lparr>Name = ''id'', Type = StringFieldType, Required = True\<rparr>,
     \<lparr>Name = ''name'', Type = StringFieldType, Required = False\<rparr>,
     \<lparr>Name = ''created_at'', Type = TimestampFieldType, Required = False\<rparr>]"

definition ex_schema_renamed :: Schema where
  "ex_schema_renamed = [\<lparr>Name = ''id'', Type = IntegerFieldType, Required = True\<rparr>,
     \<lparr>Name = ''name'', Type = StringFieldType, Required = False\<rparr>,
     \<lparr>Name = ''updated_at'', Type = TimestampFieldType, Required = False\<rparr>]"

text \<open>
  A cursor positioned on a row of that table, with a null name; times are numbers and
  the formatting function is a toy that shows the layout and the time.
\<close>

definition ex_Format :: "nat \<Rightarrow> string \<Rightarrow> string" where
  "ex_Format t layout = layout @ ''@'' @ replicate t CHR ''I''"

definition ex_cursor :: "(nat, int) any Rows" where
  "ex_cursor = \<lparr>rows_Columns = Inr [''id'', ''name'', ''created_at''],
     rows_ColumnTypes = Inr ex_cols, rows_pending = [],
     rows_lastcols = Inr [AnyBytes ''7'', AnyNil, AnyTime 2], rows_Err = None\<rparr>"

definition ex_row :: "(nat, int) any DynamicRow" where
  "ex_row = \<lparr>ColumnNames = [''id'', ''name'', ''created_at''],
     Values = [AnyString ''7'', AnyNil, AnyString ''2006-01-02@II'']\<rparr>"

text \<open>
  A destination that holds the table with the retyped schema, accepts every deletion and
  creation and refuses the update with a given error; an error that is critical and one
  that is not.
\<close>

definition ex_table :: BQTable where
  "ex_table = \<lparr>table_Name = ''accounts'', table_Schema = ex_schema\<rparr>"

definition ex_client :: "string \<Rightarrow> bq_Client" where
  "ex_client updateErr =
     \<lparr>bq_Metadata = (\<lambda>_. Inr \<lparr>md_Name = ''accounts'', md_Schema = ex_schema_retyped,
                                 md_ETag = ''etag-1''\<rparr>),
      bq_Create = (\<lambda>_ _ _. None),
      bq_Update = (\<lambda>_ _ _. Some updateErr),
      bq_Delete = (\<lambda>_. None),
      bq_LoaderRun = (\<lambda>_ _ _. None),
      bq_JobWait = (\<lambda>_. None),
      bq_StatusErr = (\<lambda>_. None)\<rparr>"

definition ex_critical :: string where
  "ex_critical = ''Field id has changed type from STRING to INTEGER, invalid''"

definition ex_ordinary :: string where
  "ex_ordinary = ''rateLimitExceeded''"

text \<open>
  Inputs for the extraction loop: a table of scores with the columns id, name and score.
  Floating point numbers are represented by three of them, of which one is not a number.
\<close>

datatype sample_float = NaN | Zero | OneAndAHalf

text \<open>
  A serializer for the records of that table. On a record whose values are null, strings
  that need no escaping, truth values and the sample numbers it writes the line that
  \<open>json.Encoder\<close> writes for the map (keys in sorted order, a newline at the end);
  it refuses the number that is not a number with the error of \<open>json\<close>. Integers,
  byte sequences and times do not occur in the sample records and are not covered.
\<close>

definition dq :: char where
  "dq = CHR 0x22"

definition ex_jsonKey :: "string \<Rightarrow> string" where
  "ex_jsonKey k = dq # k @ [dq] @ '':''"

fun ex_jsonValue :: "(nat, sample_float) any \<Rightarrow> string + string" where
  "ex_jsonValue AnyNil = Inr ''null''"
| "ex_jsonValue (AnyString s) = Inr (dq # s @ [dq])"
| "ex_jsonValue (AnyBool b) = Inr (if b then ''true'' else ''false'')"
| "ex_jsonValue (AnyFloat64 NaN) = Inl ''json: unsupported value: NaN''"
| "ex_jsonValue (AnyFloat64 Zero) = Inr ''0''"
| "ex_jsonValue (AnyFloat64 OneAndAHalf) = Inr ''1.5''"
| "ex_jsonValue v = Inl ''not a value of the sample''"

definition ex_Encode :: "(string \<rightharpoonup> (nat, sample_float) any) \<Rightarrow> string + string" where
  "ex_Encode saveable =
     (case (saveable ''id'', saveable ''name'', saveable ''score'') of
        (Some i, Some n, Some sc) \<Rightarrow>
          (case ex_jsonValue i of
             Inl err \<Rightarrow> Inl err
           | Inr a \<Rightarrow>
               (case ex_jsonValue n of
                  Inl err \<Rightarrow> Inl err
                | Inr b \<Rightarrow>
                    (case ex_jsonValue sc of
                       Inl err \<Rightarrow> Inl err
                     | Inr c \<Rightarrow>
                         Inr (''{'' @ ex_jsonKey ''id'' @ a @ '','' @ ex_jsonKey ''name'' @ b @
                              '','' @ ex_jsonKey ''score'' @ c @ ''}'' @ [CHR 0x0A]))))
      | _ \<Rightarrow> Inl ''not a record of the sample'')"

text \<open>
  The line of a row with a given id, a null name and the score 1.5.
\<close>

definition ex_line :: "string \<Rightarrow> string" where
  "ex_line k =
     ''{'' @ ex_jsonKey ''id'' @ dq # k @ [dq] @ '','' @ ex_jsonKey ''name'' @ ''null'' @
     '','' @ ex_jsonKey ''score'' @ ''1.5'' @ ''}'' @ [CHR 0x0A]"

text \<open>
  A parse function that needs the id: it reads the row as \<open>ParseDynamicRow\<close> does and
  then fails on a row whose id is NULL, as a scan of that column into an integer would.
  The job on the table of scores uses it.
\<close>

definition ex_strictParse ::
  "(nat, sample_float) any Rows \<Rightarrow> string + (nat, sample_float) any DynamicRow" where
  "ex_strictParse rows =
     (case ParseDynamicRow ex_Format rows ''2006-01-02'' of
        Inl err \<Rightarrow> Inl err
      | Inr row \<Rightarrow>
          (case Values row of
             AnyNil # rest \<Rightarrow> Inl ''id is NULL''
           | _ \<Rightarrow> Inr row))"

definition ex_job :: "((nat, sample_float) any, (nat, sample_float) any) Job" where
  "ex_job = \<lparr>job_Name = ''scores'', job_ConnectionString = ''dsn'',
     job_Query = ''SELECT * FROM crm.scores'', job_BigQueryTable = ''scores'',
     job_ParseFunc = ex_strictParse\<rparr>"

text \<open>
  Rows of the table: one with a given id, one with a NULL id, one whose score is not a
  number; ten rows of which the fifth has a NULL id; a cursor that delivers given rows and
  then reports a given error or none; a database that knows the query of the job.
\<close>

definition ex_scored :: "string \<Rightarrow> (nat, sample_float) any list" where
  "ex_scored k = [AnyBytes k, AnyNil, AnyFloat64 OneAndAHalf]"

definition ex_null_id :: "(nat, sample_float) any list" where
  "ex_null_id = [AnyNil, AnyBytes ''anonymous'', AnyFloat64 Zero]"

definition ex_nan :: "(nat, sample_float) any list" where
  "ex_nan = [AnyBytes ''3'', AnyNil, AnyFloat64 NaN]"

definition ex_pending10 :: "(nat, sample_float) any list list" where
  "ex_pending10 = [ex_scored ''1'', ex_scored ''2'', ex_scored ''3'', ex_scored ''4'', ex_null_id,
     ex_scored ''6'', ex_scored ''7'', ex_scored ''8'', ex_scored ''9'', ex_scored ''10'']"

definition ex_cursor_of ::
  "(nat, sample_float) any list list \<Rightarrow> string option \<Rightarrow> (nat, sample_float) any Rows" where
  "ex_cursor_of pending err =
     \<lparr>rows_Columns = Inr [''id'', ''name'', ''score''],
      rows_ColumnTypes =
        Inr [\<lparr>col_Name = ''id'', col_DatabaseTypeName = ''BIGINT'', col_Nullable = (True, True)\<rparr>,
             \<lparr>col_Name = ''name'', col_DatabaseTypeName = ''VARCHAR'', col_Nullable = (True, True)\<rparr>,
             \<lparr>col_Name = ''score'', col_DatabaseTypeName = ''DOUBLE'', col_Nullable = (True, True)\<rparr>],
      rows_pending = pending,
      rows_lastcols = Inl ''sql: Scan called without calling Next'',
      rows_Err = err\<rparr>"

definition ex_conn :: "(nat, sample_float) any Rows \<Rightarrow> (nat, sample_float) any DB" where
  "ex_conn cursor q =
     (if q = ''SELECT * FROM crm.scores'' then Inr cursor
      else Inl ''Error 1146: table does not exist'')"

text \<open>
  The lines of the nine rows with an id among those ten.
\<close>

definition ex_nine_lines :: string where
  "ex_nine_lines = concat (map ex_line [''1'', ''2'', ''3'', ''4'', ''6'', ''7'', ''8'', ''9'', ''10''])"

section \<open>The type mapping\<close>

lemma Split_first: "\<exists>rest. Split s sep = takeWhile (\<lambda>c. c \<noteq> sep) s # rest"
  by (induction s) (auto split: list.splits)










lemma mysqlType_in_semanticTypes:
  "\<exists>ty. mysqlTypeToBigQueryType mapUpper s = Ok ty \<and> ty \<in> set semanticTypes"
proof -
  obtain rest where "Split s CHR ''('' = takeWhile (\<lambda>c. c \<noteq> CHR ''('') s # rest"
    using Split_first by blast
  then show ?thesis
    by (simp add: mysqlTypeToBigQueryType_def semanticTypes_def Let_def)
qed






section \<open>Schema inference\<close>

lemma inferFields_Ok:
  "\<exists>fields. inferFields mapUpper cols schema = Ok (schema @ fields) \<and>
     map Name fields = map col_Name cols \<and>
     map Required fields = map (\<lambda>c. snd (col_Nullable c) \<and> \<not> fst (col_Nullable c)) cols \<and>
     map (\<lambda>f. Ok (Type f)) fields =
       map (\<lambda>c. mysqlTypeToBigQueryType mapUpper (col_DatabaseTypeName c)) cols"
proof (induction cols arbitrary: schema)
  case Nil
  show ?case by simp
next
  case (Cons col cols)
  obtain bqType where ty: "mysqlTypeToBigQueryType mapUpper (col_DatabaseTypeName col) = Ok bqType"
    using mysqlType_in_semanticTypes by blast
  obtain nullable ok where nl: "col_Nullable col = (nullable, ok)"
    by (cases "col_Nullable col")
  define field where
    "field = \<lparr>Name = col_Name col, Type = bqType, Required = (ok \<and> \<not> nullable)\<rparr>"
  from Cons.IH[where schema = "schema @ [field]"] obtain fields where
    f: "inferFields mapUpper cols (schema @ [field]) = Ok ((schema @ [field]) @ fields)"
       "map Name fields = map col_Name cols"
       "map Required fields = map (\<lambda>c. snd (col_Nullable c) \<and> \<not> fst (col_Nullable c)) cols"
       "map (\<lambda>f. Ok (Type f)) fields =
          map (\<lambda>c. mysqlTypeToBigQueryType mapUpper (col_DatabaseTypeName c)) cols"
    by blast
  have "inferFields mapUpper (col # cols) schema = Ok (schema @ field # fields)"
    using ty nl f(1) by (simp add: field_def)
  moreover have "map Name (field # fields) = map col_Name (col # cols)"
    using f(2) by (simp add: field_def)
  moreover have "map Required (field # fields) =
      map (\<lambda>c. snd (col_Nullable c) \<and> \<not> fst (col_Nullable c)) (col # cols)"
    using f(3) nl by (simp add: field_def)
  moreover have "map (\<lambda>f. Ok (Type f)) (field # fields) =
      map (\<lambda>c. mysqlTypeToBigQueryType mapUpper (col_DatabaseTypeName c)) (col # cols)"
    using f(4) ty by (simp add: field_def)
  ultimately show ?case by blast
qed

lemma InferSchemaFromMySQL_Ok:
  assumes "InferSchemaFromMySQL mapUpper db query = Ok schema"
  shows "\<exists>rows columnTypes. db query = Inr rows \<and> rows_ColumnTypes rows = Inr columnTypes \<and>
           inferFields mapUpper columnTypes [] = Ok schema"
  using assms by (auto simp: InferSchemaFromMySQL_def split: sum.splits)

lemma InferSchemaFromMySQL_succeeds:
  assumes "db query = Inr rows" and "rows_ColumnTypes rows = Inr columnTypes"
  shows "\<exists>schema. InferSchemaFromMySQL mapUpper db query = Ok schema"
  using assms inferFields_Ok[where mapUpper = mapUpper and cols = columnTypes and schema = "[]"] by (auto simp: InferSchemaFromMySQL_def)

text \<open>
  Claim C7. In a schema that inference returns, the field of a column is required exactly
  when the driver both knows the nullability of the column and reports it as not
  nullable; so when the nullability is not known, the field is not required.
\<close>

theorem InferSchemaFromMySQL_required_fail_open:
  assumes "InferSchemaFromMySQL mapUpper db query = Ok schema"
    and "db query = Inr rows" and "rows_ColumnTypes rows = Inr columnTypes"
    and "i < length columnTypes"
  shows "i < length schema \<and>
         (Required (schema ! i) \<longleftrightarrow>
            snd (col_Nullable (columnTypes ! i)) \<and> \<not> fst (col_Nullable (columnTypes ! i))) \<and>
         (\<not> snd (col_Nullable (columnTypes ! i)) \<longrightarrow> \<not> Required (schema ! i))"
proof -
  from assms(1-3) have ok: "inferFields mapUpper columnTypes [] = Ok schema"
    using InferSchemaFromMySQL_Ok[of mapUpper db query schema] by auto
  from inferFields_Ok[where mapUpper = mapUpper and cols = columnTypes and schema = "[]"] ok
  have req: "map Required schema =
      map (\<lambda>c. snd (col_Nullable c) \<and> \<not> fst (col_Nullable c)) columnTypes"
    by auto
  then have len: "length schema = length columnTypes"
    using map_eq_imp_length_eq by blast
  have "Required (schema ! i) =
      (snd (col_Nullable (columnTypes ! i)) \<and> \<not> fst (col_Nullable (columnTypes ! i)))"
    using nth_map[of i schema Required] nth_map[of i columnTypes] req len assms(4) by simp
  with len assms(4) show ?thesis by simp
qed

text \<open>
  Claim C10. A schema that inference returns has one field for each column of the result
  set, in the order of the columns, and each field has the name of its column. Inference
  does return a schema whenever the query and the reading of the column types succeed.
\<close>

theorem InferSchemaFromMySQL_fields_follow_columns:
  "(InferSchemaFromMySQL mapUpper db query = Ok schema \<longrightarrow>
      (\<exists>rows columnTypes. db query = Inr rows \<and> rows_ColumnTypes rows = Inr columnTypes \<and>
         length schema = length columnTypes \<and> map Name schema = map col_Name columnTypes)) \<and>
   (db query = Inr rows' \<and> rows_ColumnTypes rows' = Inr columnTypes' \<longrightarrow>
      (\<exists>schema'. InferSchemaFromMySQL mapUpper db query = Ok schema'))"
proof (intro conjI impI)
  assume a: "InferSchemaFromMySQL mapUpper db query = Ok schema"
  then obtain rows columnTypes where
    r: "db query = Inr rows" "rows_ColumnTypes rows = Inr columnTypes"
       "inferFields mapUpper columnTypes [] = Ok schema"
    using InferSchemaFromMySQL_Ok by blast
  from inferFields_Ok[where mapUpper = mapUpper and cols = columnTypes and schema = "[]"] r(3)
  have names: "map Name schema = map col_Name columnTypes"
    by auto
  then have "length schema = length columnTypes"
    using map_eq_imp_length_eq by blast
  with r names show "\<exists>rows columnTypes. db query = Inr rows \<and>
      rows_ColumnTypes rows = Inr columnTypes \<and>
      length schema = length columnTypes \<and> map Name schema = map col_Name columnTypes"
    by blast
next
  assume "db query = Inr rows' \<and> rows_ColumnTypes rows' = Inr columnTypes'"
  then show "\<exists>schema'. InferSchemaFromMySQL mapUpper db query = Ok schema'"
    using InferSchemaFromMySQL_succeeds by blast
qed

lemma ex_infer: "InferSchemaFromMySQL ex_mapUpper ex_db ''SELECT * FROM crm.accounts LIMIT 1'' = Ok ex_schema"
  by code_simp


theorem InferSchemaFromMySQL_required_witness:
  "InferSchemaFromMySQL ex_mapUpper ex_db ''SELECT * FROM crm.accounts LIMIT 1'' = Ok ex_schema \<and>
   ex_db ''SELECT * FROM crm.accounts LIMIT 1'' = Inr ex_rows \<and>
   rows_ColumnTypes ex_rows = Inr ex_cols \<and> 2 < length ex_cols \<and>
   Required (ex_schema ! 0) \<and> \<not> Required (ex_schema ! 1) \<and> \<not> Required (ex_schema ! 2) \<and>
   col_Nullable (ex_cols ! 2) = (False, False)"
proof -
  have q: "ex_db ''SELECT * FROM crm.accounts LIMIT 1'' = Inr ex_rows"
    by (simp add: ex_db_def)
  have c: "rows_ColumnTypes ex_rows = Inr ex_cols"
    by (simp add: ex_rows_def)
  have l: "0 < length ex_cols" "1 < length ex_cols" "2 < length ex_cols"
    by (simp_all add: ex_cols_def)
  have n: "col_Nullable (ex_cols ! 0) = (False, True)" "col_Nullable (ex_cols ! 1) = (True, True)"
    "col_Nullable (ex_cols ! 2) = (False, False)"
    by (simp_all add: ex_cols_def)
  show ?thesis
    using InferSchemaFromMySQL_required_fail_open[OF ex_infer q c l(1)]
      InferSchemaFromMySQL_required_fail_open[OF ex_infer q c l(2)]
      InferSchemaFromMySQL_required_fail_open[OF ex_infer q c l(3)]
      ex_infer q c l n
    by simp
qed

theorem InferSchemaFromMySQL_fields_witness:
  "InferSchemaFromMySQL ex_mapUpper ex_db ''SELECT * FROM crm.accounts LIMIT 1'' = Ok ex_schema \<and>
   ex_db ''SELECT * FROM crm.accounts LIMIT 1'' = Inr ex_rows \<and>
   rows_ColumnTypes ex_rows = Inr ex_cols \<and>
   length ex_schema = length ex_cols \<and>
   map Name ex_schema = [''id'', ''name'', ''created_at''] \<and>
   map col_Name ex_cols = [''id'', ''name'', ''created_at'']"
proof -
  have q: "ex_db ''SELECT * FROM crm.accounts LIMIT 1'' = Inr ex_rows"
    by (simp add: ex_db_def)
  have c: "rows_ColumnTypes ex_rows = Inr ex_cols"
    by (simp add: ex_rows_def)
  have m: "map col_Name ex_cols = [''id'', ''name'', ''created_at'']"
    by (simp add: ex_cols_def)
  from InferSchemaFromMySQL_fields_follow_columns
         [of ex_mapUpper ex_db "''SELECT * FROM crm.accounts LIMIT 1''" ex_schema ex_rows ex_cols]
       ex_infer q c
  have "length ex_schema = length ex_cols \<and> map Name ex_schema = map col_Name ex_cols"
    by simp
  with ex_infer q c m show ?thesis by simp
qed

section \<open>Schema equality\<close>

lemma buildTypeMap_foldl:
  "foldl (\<lambda>mapS1 field. mapS1(Name field \<mapsto> Type field)) m s1 n =
     (case map_of (rev (map (\<lambda>f. (Name f, Type f)) s1)) n of None \<Rightarrow> m n | Some t \<Rightarrow> Some t)"
  by (induction s1 arbitrary: m) (auto simp: map_add_def split: option.splits)

lemma buildTypeMap_lookup:
  "buildTypeMap s1 n = map_of (rev (map (\<lambda>f. (Name f, Type f)) s1)) n"
  by (simp add: buildTypeMap_def buildTypeMap_foldl split: option.splits)

lemma buildTypeMap_distinct:
  assumes "distinct (map Name s1)"
  shows "buildTypeMap s1 n = Some t \<longleftrightarrow> (n, t) \<in> set (map (\<lambda>f. (Name f, Type f)) s1)"
proof -
  have "map fst (rev (map (\<lambda>f. (Name f, Type f)) s1)) = rev (map Name s1)"
    by (simp add: rev_map comp_def)
  then have "distinct (map fst (rev (map (\<lambda>f. (Name f, Type f)) s1)))"
    using assms by simp
  then show ?thesis
    using map_of_eq_Some_iff[of "rev (map (\<lambda>f. (Name f, Type f)) s1)" n t]
    by (simp add: buildTypeMap_lookup)
qed

lemma collectMismatches_foldl:
  "foldl (\<lambda>mismatches field.
        (case mapS1 (Name field) of
           None \<Rightarrow> mismatches @ [''missing:'' @ Name field]
         | Some t \<Rightarrow> if t \<noteq> Type field then mismatches @ [''type:'' @ Name field]
                     else mismatches)) acc s2 = [] \<longleftrightarrow>
   acc = [] \<and> (\<forall>f \<in> set s2. mapS1 (Name f) = Some (Type f))"
  by (induction s2 arbitrary: acc) (auto split: option.splits)

lemma collectMismatches_empty:
  "collectMismatches mapS1 s2 = [] \<longleftrightarrow> (\<forall>f \<in> set s2. mapS1 (Name f) = Some (Type f))"
  by (simp add: collectMismatches_def collectMismatches_foldl)

lemma SchemasMatch_iff:
  "SchemasMatch s1 s2 \<longleftrightarrow>
     length s1 = length s2 \<and> (\<forall>f \<in> set s2. buildTypeMap s1 (Name f) = Some (Type f))"
  by (auto simp: SchemasMatch_def Let_def collectMismatches_empty)


lemma namedTypes_fst: "map fst (namedTypes s) = map Name s"
  by (simp add: namedTypes_def comp_def)

lemma namedTypes_distinct: "distinct (map Name s) \<Longrightarrow> distinct (namedTypes s)"
  using distinct_map namedTypes_fst by metis

lemma namedTypes_card: "distinct (map Name s) \<Longrightarrow> card (set (namedTypes s)) = length s"
  using namedTypes_distinct[of s] distinct_card[of "namedTypes s"] by (simp add: namedTypes_def)

lemma SchemasMatch_pairs:
  assumes "distinct (map Name s1)"
  shows "SchemasMatch s1 s2 \<longleftrightarrow>
     length s1 = length s2 \<and> set (namedTypes s2) \<subseteq> set (namedTypes s1)"
  using buildTypeMap_distinct[OF assms]
  by (auto simp: SchemasMatch_iff namedTypes_def)

lemma SchemasMatch_same_pairs:
  assumes d1: "distinct (map Name s1)" and d2: "distinct (map Name s2)"
  shows "SchemasMatch s1 s2 \<longleftrightarrow> set (namedTypes s1) = set (namedTypes s2)"
proof
  assume "SchemasMatch s1 s2"
  then have len: "length s1 = length s2" and sub: "set (namedTypes s2) \<subseteq> set (namedTypes s1)"
    using SchemasMatch_pairs[OF d1] by auto
  have "card (set (namedTypes s2)) = card (set (namedTypes s1))"
    using namedTypes_card[OF d1] namedTypes_card[OF d2] len by simp
  then have "set (namedTypes s2) = set (namedTypes s1)"
    using sub card_subset_eq[of "set (namedTypes s1)" "set (namedTypes s2)"] by simp
  then show "set (namedTypes s1) = set (namedTypes s2)" by simp
next
  assume eq: "set (namedTypes s1) = set (namedTypes s2)"
  then have "length s1 = length s2"
    using namedTypes_card[OF d1] namedTypes_card[OF d2] by simp
  with eq show "SchemasMatch s1 s2"
    using SchemasMatch_pairs[OF d1] by simp
qed

lemma namedTypes_names: "set (map Name s) = fst ` set (namedTypes s)"
  by (simp add: namedTypes_def image_image)

lemma namedTypes_type_unique:
  assumes "distinct (map Name s)" and "f \<in> set s" and "(Name f, t) \<in> set (namedTypes s)"
  shows "t = Type f"
proof -
  have "buildTypeMap s (Name f) = Some t"
    using buildTypeMap_distinct[OF assms(1)] assms(3) by (simp add: namedTypes_def)
  moreover have "buildTypeMap s (Name f) = Some (Type f)"
    using buildTypeMap_distinct[OF assms(1), of "Name f" "Type f"] assms(2) by auto
  ultimately show ?thesis by simp
qed

text \<open>
  Claim C5. For schemas whose field names are unique (the invariant of the data model),
  \<open>SchemasMatch\<close> is symmetric and holds exactly when the two schemas have the same set
  of (name, type) pairs. So two schemas with the same pairs in different orders match,
  and two schemas of which one has a field name the other lacks, or in which a field of
  the same name has a different type, do not match. The required flag plays no part.
\<close>

theorem SchemasMatch_symmetric_order_free:
  assumes d1: "distinct (map Name s1)" and d2: "distinct (map Name s2)"
  shows "SchemasMatch s1 s2 = SchemasMatch s2 s1 \<and>
         (SchemasMatch s1 s2 \<longleftrightarrow> set (namedTypes s1) = set (namedTypes s2)) \<and>
         (mset (namedTypes s1) = mset (namedTypes s2) \<longrightarrow> SchemasMatch s1 s2) \<and>
         (set (map Name s1) \<noteq> set (map Name s2) \<longrightarrow> \<not> SchemasMatch s1 s2) \<and>
         ((\<exists>f \<in> set s1. \<exists>g \<in> set s2. Name f = Name g \<and> Type f \<noteq> Type g) \<longrightarrow>
            \<not> SchemasMatch s1 s2)"
proof (intro conjI impI)
  show "SchemasMatch s1 s2 = SchemasMatch s2 s1"
    using SchemasMatch_same_pairs[OF d1 d2] SchemasMatch_same_pairs[OF d2 d1] by auto
  show "SchemasMatch s1 s2 \<longleftrightarrow> set (namedTypes s1) = set (namedTypes s2)"
    by (rule SchemasMatch_same_pairs[OF d1 d2])
next
  assume "mset (namedTypes s1) = mset (namedTypes s2)"
  then have "set (namedTypes s1) = set (namedTypes s2)"
    by (rule mset_eq_setD)
  then show "SchemasMatch s1 s2"
    using SchemasMatch_same_pairs[OF d1 d2] by simp
next
  assume "set (map Name s1) \<noteq> set (map Name s2)"
  then have "set (namedTypes s1) \<noteq> set (namedTypes s2)"
    unfolding namedTypes_names by auto
  then show "\<not> SchemasMatch s1 s2"
    using SchemasMatch_same_pairs[OF d1 d2] by simp
next
  assume "\<exists>f \<in> set s1. \<exists>g \<in> set s2. Name f = Name g \<and> Type f \<noteq> Type g"
  then obtain f g where fg: "f \<in> set s1" "g \<in> set s2" "Name f = Name g" "Type f \<noteq> Type g"
    by blast
  show "\<not> SchemasMatch s1 s2"
  proof
    assume "SchemasMatch s1 s2"
    then have "set (namedTypes s1) = set (namedTypes s2)"
      using SchemasMatch_same_pairs[OF d1 d2] by simp
    moreover have "(Name g, Type g) \<in> set (namedTypes s2)"
      using fg(2) by (auto simp: namedTypes_def)
    ultimately have "(Name f, Type g) \<in> set (namedTypes s1)"
      using fg(3) by simp
    then have "Type g = Type f"
      using namedTypes_type_unique[OF d1 fg(1)] by simp
    with fg(4) show False by simp
  qed
qed


lemma sample_schemas_distinct: "distinct (map Name ex_schema)" "distinct (map Name ex_schema_reordered)"
    "distinct (map Name ex_schema_retyped)" "distinct (map Name ex_schema_renamed)"
    by (simp_all add: ex_schema_def ex_schema_reordered_def ex_schema_retyped_def
          ex_schema_renamed_def)

lemma sample_reordered_same_pairs: "mset (namedTypes ex_schema) = mset (namedTypes ex_schema_reordered)"
    by (simp add: namedTypes_def ex_schema_def ex_schema_reordered_def)

lemma sample_retyped_differs: "\<exists>f \<in> set ex_schema. \<exists>g \<in> set ex_schema_retyped. Name f = Name g \<and> Type f \<noteq> Type g"
    by (simp add: ex_schema_def ex_schema_retyped_def IntegerFieldType_def StringFieldType_def)

lemma sample_renamed_differs: "set (map Name ex_schema) \<noteq> set (map Name ex_schema_renamed)"
proof -
  have "''updated_at'' \<in> set (map Name ex_schema_renamed)"
    by (simp add: ex_schema_renamed_def)
  moreover have "''updated_at'' \<notin> set (map Name ex_schema)"
    by (simp add: ex_schema_def)
  ultimately show ?thesis by metis
qed


theorem SchemasMatch_witness:
  "distinct (map Name ex_schema) \<and> distinct (map Name ex_schema_reordered) \<and>
   distinct (map Name ex_schema_retyped) \<and> distinct (map Name ex_schema_renamed) \<and>
   mset (namedTypes ex_schema) = mset (namedTypes ex_schema_reordered) \<and>
   SchemasMatch ex_schema ex_schema_reordered \<and> SchemasMatch ex_schema_reordered ex_schema \<and>
   \<not> SchemasMatch ex_schema ex_schema_retyped \<and> \<not> SchemasMatch ex_schema_retyped ex_schema \<and>
   \<not> SchemasMatch ex_schema ex_schema_renamed \<and> \<not> SchemasMatch ex_schema_renamed ex_schema"
proof -
  note A = SchemasMatch_symmetric_order_free[OF sample_schemas_distinct(1) sample_schemas_distinct(2)]
  note B = SchemasMatch_symmetric_order_free[OF sample_schemas_distinct(1) sample_schemas_distinct(3)]
  note C = SchemasMatch_symmetric_order_free[OF sample_schemas_distinct(1) sample_schemas_distinct(4)]
  have a1: "SchemasMatch ex_schema ex_schema_reordered"
    using A sample_reordered_same_pairs by blast
  have a2: "SchemasMatch ex_schema_reordered ex_schema"
    using A a1 by blast
  have b1: "\<not> SchemasMatch ex_schema ex_schema_retyped"
    using B sample_retyped_differs by blast
  have b2: "\<not> SchemasMatch ex_schema_retyped ex_schema"
    using B b1 by blast
  have c1: "\<not> SchemasMatch ex_schema ex_schema_renamed"
    using C sample_renamed_differs by blast
  have c2: "\<not> SchemasMatch ex_schema_renamed ex_schema"
    using C c1 by blast
  show ?thesis
    using sample_schemas_distinct sample_reordered_same_pairs a1 a2 b1 b2 c1 c2 by blast
qed


text \<open>
  The uniqueness of the names is needed: the map built from the first schema keeps one
  entry per name, so with a repeated name the comparison depends on the side.
\<close>

lemma SchemasMatch_duplicate_names:
  "SchemasMatch
     [\<lparr>Name = ''a'', Type = StringFieldType, Required = False\<rparr>,
      \<lparr>Name = ''b'', Type = IntegerFieldType, Required = False\<rparr>]
     [\<lparr>Name = ''a'', Type = StringFieldType, Required = False\<rparr>,
      \<lparr>Name = ''a'', Type = StringFieldType, Required = False\<rparr>] \<and>
   \<not> SchemasMatch
     [\<lparr>Name = ''a'', Type = StringFieldType, Required = False\<rparr>,
      \<lparr>Name = ''a'', Type = StringFieldType, Required = False\<rparr>]
     [\<lparr>Name = ''a'', Type = StringFieldType, Required = False\<rparr>,
      \<lparr>Name = ''b'', Type = IntegerFieldType, Required = False\<rparr>]"
  by (simp add: SchemasMatch_iff buildTypeMap_lookup)

section \<open>Row parsing\<close>

lemma ToSaveable_loop_Ok:
  "i + length cols \<le> length vals \<Longrightarrow>
     \<exists>m'. ToSaveable_loop cols i vals m = Ok m' \<and> dom m' = dom m \<union> set cols \<and>
       (\<forall>k. k \<notin> set cols \<longrightarrow> m' k = m k) \<and>
       (\<forall>j < length cols. cols ! j \<notin> set (drop (Suc j) cols) \<longrightarrow>
          m' (cols ! j) = Some (vals ! (i + j)))"
proof (induction cols arbitrary: i m)
  case Nil
  show ?case by simp
next
  case (Cons c rest)
  let ?m1 = "m(c \<mapsto> vals ! i)"
  from Cons.prems have le: "Suc i + length rest \<le> length vals" and lt: "i < length vals"
    by simp_all
  from Cons.IH[OF le, of ?m1] obtain m' where
    ok: "ToSaveable_loop rest (Suc i) vals ?m1 = Ok m'" and
    dm: "dom m' = dom ?m1 \<union> set rest" and
    fr: "\<forall>k. k \<notin> set rest \<longrightarrow> m' k = ?m1 k" and
    vl: "\<forall>j < length rest. rest ! j \<notin> set (drop (Suc j) rest) \<longrightarrow>
           m' (rest ! j) = Some (vals ! (Suc i + j))"
    by blast
  have 1: "ToSaveable_loop (c # rest) i vals m = Ok m'"
    using ok lt by simp
  have 2: "dom m' = dom m \<union> set (c # rest)"
    using dm by auto
  have 3: "\<forall>k. k \<notin> set (c # rest) \<longrightarrow> m' k = m k"
    using fr by simp
  have 4: "\<forall>j < length (c # rest). (c # rest) ! j \<notin> set (drop (Suc j) (c # rest)) \<longrightarrow>
             m' ((c # rest) ! j) = Some (vals ! (i + j))"
  proof (intro allI impI)
    fix j
    assume j: "j < length (c # rest)"
      and nr: "(c # rest) ! j \<notin> set (drop (Suc j) (c # rest))"
    show "m' ((c # rest) ! j) = Some (vals ! (i + j))"
    proof (cases j)
      case 0
      with nr have "c \<notin> set rest" by simp
      with fr have "m' c = ?m1 c" by blast
      with 0 show ?thesis by simp
    next
      case (Suc j')
      with j nr have "j' < length rest" and "rest ! j' \<notin> set (drop (Suc j') rest)"
        by simp_all
      with vl have "m' (rest ! j') = Some (vals ! (Suc i + j'))" by blast
      with Suc show ?thesis by simp
    qed
  qed
  from 1 2 3 4 show ?case by blast
qed

lemma ParseDynamicRow_Inr:
  assumes "ParseDynamicRow Format rows dateFormat = Inr r"
  shows "\<exists>columns raw. rows_Columns rows = Inr columns \<and> rows_lastcols rows = Inr raw \<and>
           length raw = length columns \<and> ColumnNames r = columns \<and>
           Values r = map (\<lambda>rawValue. convertValueToInterface Format rawValue dateFormat) raw"
  using assms
  by (auto simp: ParseDynamicRow_def Scan_def split: sum.splits if_splits)

lemma ParseDynamicRow_succeeds:
  assumes "rows_Columns rows = Inr columns" and "rows_lastcols rows = Inr raw"
    and "length raw = length columns"
  shows "\<exists>r. ParseDynamicRow Format rows dateFormat = Inr r"
  using assms by (simp add: ParseDynamicRow_def Scan_def)

lemma ToSaveable_parsed:
  assumes "ParseDynamicRow Format rows dateFormat = Inr r"
    and "rows_Columns rows = Inr columns" and "rows_lastcols rows = Inr raw"
  shows "\<exists>saveable. ToSaveable r = Ok saveable \<and> dom saveable = set columns \<and>
           (\<forall>j < length columns. columns ! j \<notin> set (drop (Suc j) columns) \<longrightarrow>
              saveable (columns ! j) =
                Some (convertValueToInterface Format (raw ! j) dateFormat))"
proof -
  from ParseDynamicRow_Inr[OF assms(1)] assms(2,3)
  have len: "length raw = length columns" and cn: "ColumnNames r = columns"
    and vs: "Values r = map (\<lambda>rawValue. convertValueToInterface Format rawValue dateFormat) raw"
    by auto
  have "0 + length (ColumnNames r) \<le> length (Values r)"
    using len cn vs by simp
  from ToSaveable_loop_Ok[OF this, of Map.empty] obtain saveable where
    ok: "ToSaveable_loop (ColumnNames r) 0 (Values r) Map.empty = Ok saveable" and
    dm: "dom saveable = set (ColumnNames r)" and
    vl: "\<forall>j < length (ColumnNames r).
           ColumnNames r ! j \<notin> set (drop (Suc j) (ColumnNames r)) \<longrightarrow>
           saveable (ColumnNames r ! j) = Some (Values r ! (0 + j))"
    by auto
  have "\<forall>j < length columns. columns ! j \<notin> set (drop (Suc j) columns) \<longrightarrow>
          saveable (columns ! j) = Some (convertValueToInterface Format (raw ! j) dateFormat)"
    using vl cn vs len by simp
  with ok dm cn show ?thesis
    by (simp add: ToSaveable_def)
qed

text \<open>
  Claim C8. When a row is parsed successfully, the record made from it for serialization
  is defined (the conversion to a map does not panic) and its set of keys is the set of
  the column names that the cursor reports for the result set.
\<close>

theorem ParseDynamicRow_key_set:
  assumes "ParseDynamicRow Format rows dateFormat = Inr r"
  shows "\<exists>columns saveable. rows_Columns rows = Inr columns \<and> ToSaveable r = Ok saveable \<and>
           dom saveable = set columns"
proof -
  from ParseDynamicRow_Inr[OF assms] obtain columns raw where
    c: "rows_Columns rows = Inr columns" and l: "rows_lastcols rows = Inr raw"
    by blast
  from ToSaveable_parsed[OF assms c l] c show ?thesis
    by blast
qed

text \<open>
  Claim C6. The conversion of a raw value is a total function with these rules: nil stays
  nil, a byte sequence becomes the string of the same bytes, a time becomes the string
  that \<open>Format\<close> gives for the one configured format, and every other value is
  returned as it is. A row that the driver delivers with as many values as there are
  columns is parsed and turned into a record without failure; every column name is a key
  of the record, and for a column whose name does not occur again further right (so for
  every column when the names are unique) the entry is the converted value of that
  column: a null value is the explicit entry nil.
\<close>

theorem convertValueToInterface_rules:
  "convertValueToInterface Format AnyNil dateFormat = AnyNil \<and>
   convertValueToInterface Format (AnyBytes b) dateFormat = AnyString b \<and>
   convertValueToInterface Format (AnyTime t) dateFormat = AnyString (Format t dateFormat) \<and>
   (v \<noteq> AnyNil \<and> (\<forall>b'. v \<noteq> AnyBytes b') \<and> (\<forall>t'. v \<noteq> AnyTime t') \<longrightarrow>
      convertValueToInterface Format v dateFormat = v) \<and>
   (rows_Columns rows = Inr columns \<and> rows_lastcols rows = Inr raw \<and>
    length raw = length columns \<longrightarrow>
      (\<exists>r saveable. ParseDynamicRow Format rows dateFormat = Inr r \<and>
         ToSaveable r = Ok saveable \<and>
         (\<forall>j < length columns.
            columns ! j \<in> dom saveable \<and>
            (columns ! j \<notin> set (drop (Suc j) columns) \<longrightarrow>
               saveable (columns ! j) =
                 Some (convertValueToInterface Format (raw ! j) dateFormat) \<and>
               (raw ! j = AnyNil \<longrightarrow> saveable (columns ! j) = Some AnyNil)))))"
proof (intro conjI impI)
  show "convertValueToInterface Format AnyNil dateFormat = AnyNil" by simp
  show "convertValueToInterface Format (AnyBytes b) dateFormat = AnyString b" by simp
  show "convertValueToInterface Format (AnyTime t) dateFormat = AnyString (Format t dateFormat)"
    by simp
next
  assume "v \<noteq> AnyNil \<and> (\<forall>b'. v \<noteq> AnyBytes b') \<and> (\<forall>t'. v \<noteq> AnyTime t')"
  then show "convertValueToInterface Format v dateFormat = v"
    by (cases v) simp_all
next
  assume a: "rows_Columns rows = Inr columns \<and> rows_lastcols rows = Inr raw \<and>
    length raw = length columns"
  then obtain r where r: "ParseDynamicRow Format rows dateFormat = Inr r"
    using ParseDynamicRow_succeeds by blast
  from ToSaveable_parsed[OF r] a obtain saveable where
    ok: "ToSaveable r = Ok saveable" and dm: "dom saveable = set columns" and
    vl: "\<forall>j < length columns. columns ! j \<notin> set (drop (Suc j) columns) \<longrightarrow>
           saveable (columns ! j) = Some (convertValueToInterface Format (raw ! j) dateFormat)"
    by blast
  have "\<forall>j < length columns.
            columns ! j \<in> dom saveable \<and>
            (columns ! j \<notin> set (drop (Suc j) columns) \<longrightarrow>
               saveable (columns ! j) =
                 Some (convertValueToInterface Format (raw ! j) dateFormat) \<and>
               (raw ! j = AnyNil \<longrightarrow> saveable (columns ! j) = Some AnyNil))"
    using dm vl by auto
  with r ok show "\<exists>r saveable. ParseDynamicRow Format rows dateFormat = Inr r \<and>
         ToSaveable r = Ok saveable \<and>
         (\<forall>j < length columns.
            columns ! j \<in> dom saveable \<and>
            (columns ! j \<notin> set (drop (Suc j) columns) \<longrightarrow>
               saveable (columns ! j) =
                 Some (convertValueToInterface Format (raw ! j) dateFormat) \<and>
               (raw ! j = AnyNil \<longrightarrow> saveable (columns ! j) = Some AnyNil)))"
    by blast
qed


lemma ex_parse: "ParseDynamicRow ex_Format ex_cursor ''2006-01-02'' = Inr ex_row"
  by (simp add: ParseDynamicRow_def Scan_def ex_cursor_def ex_row_def ex_Format_def
        numeral_2_eq_2)

theorem ParseDynamicRow_key_set_witness:
  "ParseDynamicRow ex_Format ex_cursor ''2006-01-02'' = Inr ex_row \<and>
   (\<exists>saveable. ToSaveable ex_row = Ok saveable \<and>
      dom saveable = {''id'', ''name'', ''created_at''})"
proof -
  from ParseDynamicRow_key_set[OF ex_parse] obtain columns saveable where
    c: "rows_Columns ex_cursor = Inr columns" and
    s: "ToSaveable ex_row = Ok saveable" "dom saveable = set columns"
    by blast
  from c have "columns = [''id'', ''name'', ''created_at'']"
    by (simp add: ex_cursor_def)
  with s have "ToSaveable ex_row = Ok saveable \<and> dom saveable = {''id'', ''name'', ''created_at''}"
    by simp
  with ex_parse show ?thesis by blast
qed

theorem convertValueToInterface_witness:
  "convertValueToInterface ex_Format (AnyInt64 7 :: (nat, int) any) ''2006-01-02'' = AnyInt64 7 \<and>
   (\<exists>r saveable. ParseDynamicRow ex_Format ex_cursor ''2006-01-02'' = Inr r \<and>
      ToSaveable r = Ok saveable \<and>
      saveable ''id'' = Some (AnyString ''7'') \<and>
      saveable ''name'' = Some AnyNil \<and>
      saveable ''created_at'' = Some (AnyString ''2006-01-02@II''))"
proof -
  define columns where "columns = [''id'', ''name'', ''created_at'']"
  define raw where "raw = ([AnyBytes ''7'', AnyNil, AnyTime 2] :: (nat, int) any list)"
  define v where "v = (AnyInt64 7 :: (nat, int) any)"
  note T = convertValueToInterface_rules
    [of ex_Format "''2006-01-02''" "''7''" 2 v ex_cursor columns raw]
  note T4 = T[THEN conjunct2, THEN conjunct2, THEN conjunct2, THEN conjunct1, THEN mp]
  note T5 = T[THEN conjunct2, THEN conjunct2, THEN conjunct2, THEN conjunct2, THEN mp]
  have hv: "v \<noteq> AnyNil \<and> (\<forall>b'. v \<noteq> AnyBytes b') \<and> (\<forall>t'. v \<noteq> AnyTime t')"
    by (simp add: v_def)
  have h: "rows_Columns ex_cursor = Inr columns \<and> rows_lastcols ex_cursor = Inr raw \<and>
           length raw = length columns"
    by (simp add: ex_cursor_def columns_def raw_def)
  have 1: "convertValueToInterface ex_Format v ''2006-01-02'' = v"
    by (rule T4[OF hv])
  from T5[OF h] obtain r saveable where
    p: "ParseDynamicRow ex_Format ex_cursor ''2006-01-02'' = Inr r" and
    s: "ToSaveable r = Ok saveable" and
    a: "\<forall>j < length columns.
            columns ! j \<in> dom saveable \<and>
            (columns ! j \<notin> set (drop (Suc j) columns) \<longrightarrow>
               saveable (columns ! j) =
                 Some (convertValueToInterface ex_Format (raw ! j) ''2006-01-02'') \<and>
               (raw ! j = AnyNil \<longrightarrow> saveable (columns ! j) = Some AnyNil))"
    by (elim exE conjE)
  have s0: "saveable ''id'' = Some (AnyString ''7'')"
    using a[rule_format, of 0] by (simp add: columns_def raw_def)
  have s1: "saveable ''name'' = Some AnyNil"
    using a[rule_format, of 1] by (simp add: columns_def raw_def)
  have s2: "saveable ''created_at'' = Some (AnyString ''2006-01-02@II'')"
    using a[rule_format, of 2] by (simp add: columns_def raw_def ex_Format_def numeral_2_eq_2)
  show ?thesis
    using 1 p s s0 s1 s2 unfolding v_def by (intro conjI exI)
qed

section \<open>Table reconciliation\<close>

text \<open>
  Claim C1. Take a run of the reconciliation in which the table exists, its schema differs
  from the wanted one and the update of the schema fails. Then the table is deleted
  exactly when the error of the update is classified as critical, that is, when its
  message says that a field changed type or is missing and that the update is invalid. In
  that case the calls are: metadata, update, delete, and, once the delete has succeeded,
  the creation of the table with the new schema; the run succeeds exactly when both
  succeed. In the other case the run fails with the error of the update, and the only
  calls are metadata and update: the table is neither deleted nor created.
\<close>

theorem createOrUpdateTable_recreate_iff_critical:
  assumes md: "bq_Metadata client (datasetID, table_Name table) = Inr metadata"
    and mm: "\<not> SchemasMatch (md_Schema metadata) (table_Schema table)"
    and up: "bq_Update client (datasetID, table_Name table) (table_Schema table)
               (md_ETag metadata) = Some updateErr"
  shows "(Delete_call (datasetID, table_Name table)
            \<in> set (snd (createOrUpdateTable client datasetID table)) \<longleftrightarrow>
          isCriticalError updateErr) \<and>
         (isCriticalError updateErr \<longrightarrow>
            snd (createOrUpdateTable client datasetID table) =
              [Metadata_call (datasetID, table_Name table),
               Update_call (datasetID, table_Name table) (table_Schema table) (md_ETag metadata),
               Delete_call (datasetID, table_Name table)] @
              (case bq_Delete client (datasetID, table_Name table) of
                 None \<Rightarrow> [Create_call (datasetID, table_Name table) (table_Name table)
                            (table_Schema table)]
               | Some delErr \<Rightarrow> []) \<and>
            (fst (createOrUpdateTable client datasetID table) = Ok () \<longleftrightarrow>
               bq_Delete client (datasetID, table_Name table) = None \<and>
               bq_Create client (datasetID, table_Name table) (table_Name table)
                 (table_Schema table) = None)) \<and>
         (\<not> isCriticalError updateErr \<longrightarrow>
            fst (createOrUpdateTable client datasetID table) =
              Err (''failed to update table schema: '' @ updateErr) \<and>
            snd (createOrUpdateTable client datasetID table) =
              [Metadata_call (datasetID, table_Name table),
               Update_call (datasetID, table_Name table) (table_Schema table)
                 (md_ETag metadata)] \<and>
            Delete_call (datasetID, table_Name table)
              \<notin> set (snd (createOrUpdateTable client datasetID table)) \<and>
            (\<forall>n s. Create_call (datasetID, table_Name table) n s
              \<notin> set (snd (createOrUpdateTable client datasetID table)))) \<and>
         (isCriticalError updateErr \<longleftrightarrow>
            (Contains updateErr ''changed type'' \<or> Contains updateErr ''is missing'') \<and>
            Contains updateErr ''invalid'')"
proof -
  have main: "(Delete_call (datasetID, table_Name table)
            \<in> set (snd (createOrUpdateTable client datasetID table)) \<longleftrightarrow>
          isCriticalError updateErr) \<and>
         (isCriticalError updateErr \<longrightarrow>
            snd (createOrUpdateTable client datasetID table) =
              [Metadata_call (datasetID, table_Name table),
               Update_call (datasetID, table_Name table) (table_Schema table) (md_ETag metadata),
               Delete_call (datasetID, table_Name table)] @
              (case bq_Delete client (datasetID, table_Name table) of
                 None \<Rightarrow> [Create_call (datasetID, table_Name table) (table_Name table)
                            (table_Schema table)]
               | Some delErr \<Rightarrow> []) \<and>
            (fst (createOrUpdateTable client datasetID table) = Ok () \<longleftrightarrow>
               bq_Delete client (datasetID, table_Name table) = None \<and>
               bq_Create client (datasetID, table_Name table) (table_Name table)
                 (table_Schema table) = None)) \<and>
         (\<not> isCriticalError updateErr \<longrightarrow>
            fst (createOrUpdateTable client datasetID table) =
              Err (''failed to update table schema: '' @ updateErr) \<and>
            snd (createOrUpdateTable client datasetID table) =
              [Metadata_call (datasetID, table_Name table),
               Update_call (datasetID, table_Name table) (table_Schema table)
                 (md_ETag metadata)] \<and>
            Delete_call (datasetID, table_Name table)
              \<notin> set (snd (createOrUpdateTable client datasetID table)) \<and>
            (\<forall>n s. Create_call (datasetID, table_Name table) n s
              \<notin> set (snd (createOrUpdateTable client datasetID table))))"
  proof (cases "isCriticalError updateErr")
    case True
    show ?thesis
    proof (cases "bq_Delete client (datasetID, table_Name table)")
      case None
      show ?thesis
      proof (cases "bq_Create client (datasetID, table_Name table) (table_Name table)
                      (table_Schema table)")
        case None
        with \<open>bq_Delete client (datasetID, table_Name table) = None\<close> True md mm up
        show ?thesis
          by (simp add: createOrUpdateTable_def Let_def)
      next
        case (Some createErr)
        with \<open>bq_Delete client (datasetID, table_Name table) = None\<close> True md mm up
        show ?thesis
          by (simp add: createOrUpdateTable_def Let_def)
      qed
    next
      case (Some delErr)
      with True md mm up show ?thesis
        by (simp add: createOrUpdateTable_def Let_def)
    qed
  next
    case False
    with md mm up show ?thesis
      by (simp add: createOrUpdateTable_def Let_def)
  qed
  have crit: "(isCriticalError updateErr \<longleftrightarrow>
            (Contains updateErr ''changed type'' \<or> Contains updateErr ''is missing'') \<and>
            Contains updateErr ''invalid'')"
    by (simp add: isCriticalError_def)
  from main crit show ?thesis
    by (elim conjE, intro conjI) assumption+
qed


lemma sample_retyped_mismatch: "\<not> SchemasMatch ex_schema_retyped ex_schema"
  by (simp add: SchemasMatch_iff buildTypeMap_lookup ex_schema_def ex_schema_retyped_def
        IntegerFieldType_def StringFieldType_def)

lemma sample_errors_classified: "isCriticalError ex_critical" "\<not> isCriticalError ex_ordinary"
  by (code_simp, code_simp)

theorem createOrUpdateTable_witness:
  "isCriticalError ex_critical \<and> \<not> isCriticalError ex_ordinary \<and>
   createOrUpdateTable (ex_client ex_critical) ''ds'' ex_table =
     (Ok (),
      [Metadata_call (''ds'', ''accounts''),
       Update_call (''ds'', ''accounts'') ex_schema ''etag-1'',
       Delete_call (''ds'', ''accounts''),
       Create_call (''ds'', ''accounts'') ''accounts'' ex_schema]) \<and>
   createOrUpdateTable (ex_client ex_ordinary) ''ds'' ex_table =
     (Err (''failed to update table schema: '' @ ex_ordinary),
      [Metadata_call (''ds'', ''accounts''),
       Update_call (''ds'', ''accounts'') ex_schema ''etag-1''])"
proof -
  define metadata where
    "metadata = \<lparr>md_Name = ''accounts'', md_Schema = ex_schema_retyped, md_ETag = ''etag-1''\<rparr>"
  have tn: "table_Name ex_table = ''accounts''" and ts: "table_Schema ex_table = ex_schema"
    by (simp_all add: ex_table_def)
  have md: "bq_Metadata (ex_client e) (''ds'', table_Name ex_table) = Inr metadata" for e
    by (simp add: ex_client_def metadata_def)
  have mm: "\<not> SchemasMatch (md_Schema metadata) (table_Schema ex_table)"
    using sample_retyped_mismatch by (simp add: metadata_def ts)
  have up: "bq_Update (ex_client e) (''ds'', table_Name ex_table) (table_Schema ex_table)
              (md_ETag metadata) = Some e" for e
    by (simp add: ex_client_def)
  have dl: "bq_Delete (ex_client e) ref = None" for e ref
    by (simp add: ex_client_def)
  have cr: "bq_Create (ex_client e) ref n sch = None" for e ref n sch
    by (simp add: ex_client_def)
  note C = createOrUpdateTable_recreate_iff_critical[OF md mm up, of ex_critical]
  note O = createOrUpdateTable_recreate_iff_critical[OF md mm up, of ex_ordinary]
  have c1: "fst (createOrUpdateTable (ex_client ex_critical) ''ds'' ex_table) = Ok ()"
    using C sample_errors_classified(1) dl cr by blast
  have c2: "snd (createOrUpdateTable (ex_client ex_critical) ''ds'' ex_table) =
      [Metadata_call (''ds'', ''accounts''),
       Update_call (''ds'', ''accounts'') ex_schema ''etag-1'',
       Delete_call (''ds'', ''accounts''),
       Create_call (''ds'', ''accounts'') ''accounts'' ex_schema]"
    using C[THEN conjunct2, THEN conjunct1, THEN mp, OF sample_errors_classified(1), THEN conjunct1]
    by (simp add: dl tn ts metadata_def)
  have o1: "fst (createOrUpdateTable (ex_client ex_ordinary) ''ds'' ex_table) =
      Err (''failed to update table schema: '' @ ex_ordinary)"
    using O[THEN conjunct2, THEN conjunct2, THEN conjunct1, THEN mp,
            OF sample_errors_classified(2), THEN conjunct1] .
  have o2: "snd (createOrUpdateTable (ex_client ex_ordinary) ''ds'' ex_table) =
      [Metadata_call (''ds'', ''accounts''),
       Update_call (''ds'', ''accounts'') ex_schema ''etag-1'']"
    using O[THEN conjunct2, THEN conjunct2, THEN conjunct1, THEN mp,
            OF sample_errors_classified(2), THEN conjunct2, THEN conjunct1]
    by (simp add: tn ts metadata_def)
  show ?thesis
    using sample_errors_classified c1 c2 o1 o2 by (simp add: prod_eq_iff)
qed

section \<open>Extraction and load\<close>

lemma extractRows_skip:
  assumes "ParseFunc (rows\<lparr>rows_lastcols := Inr r\<rparr>) = Inl err"
  shows "extractRows Encode ParseFunc rows (r # rest) st =
         extractRows Encode ParseFunc rows rest
           (st\<lparr>rowNum := rowNum st + 1, skippedRows := skippedRows st + 1\<rparr>)"
  using assms by (simp add: Let_def)

lemma extractRows_encode_failure:
  assumes "ParseFunc (rows\<lparr>rows_lastcols := Inr r\<rparr>) = Inr row"
    and "ToSaveable row = Ok saveable" and "Encode saveable = Inl err"
  shows "extractRows Encode ParseFunc rows (r # rest) st =
         Err (''failed to write row to memory buffer: '' @ err)"
  using assms by (simp add: Let_def)

lemma extractRows_append:
  "extractRows Encode ParseFunc rows (xs @ ys) st =
     (case extractRows Encode ParseFunc rows xs st of
        Ok st' \<Rightarrow> extractRows Encode ParseFunc rows ys st'
      | Err e \<Rightarrow> Err e
      | Panic \<Rightarrow> Panic)"
  by (induction xs arbitrary: st)
     (auto simp: Let_def split: sum.splits go_result.splits)

lemma rowSkipped_not_encodes:
  "rowSkipped ParseFunc rows r \<Longrightarrow> \<not> rowEncodes Encode ParseFunc rows r"
  by (auto simp: rowSkipped_def rowEncodes_def rowLine_def split: sum.splits)

lemma rowEncodes_not_skipped:
  "rowEncodes Encode ParseFunc rows r \<Longrightarrow> \<not> rowSkipped ParseFunc rows r"
  using rowSkipped_not_encodes by blast

lemma extractRows_counts:
  assumes "\<forall>r \<in> set rs. rowSkipped ParseFunc rows r \<or> rowEncodes Encode ParseFunc rows r"
  shows "\<exists>st'. extractRows Encode ParseFunc rows rs st = Ok st' \<and>
           skippedRows st' = skippedRows st + length (filter (rowSkipped ParseFunc rows) rs) \<and>
           totalRowsExtracted st' =
             totalRowsExtracted st + length (filter (rowEncodes Encode ParseFunc rows) rs) \<and>
           rowNum st' = rowNum st + length rs \<and>
           buf st' = buf st @ bufferedLines Encode ParseFunc rows rs"
  using assms
proof (induction rs arbitrary: st)
  case Nil
  show ?case by (simp add: bufferedLines_def)
next
  case (Cons r rs)
  from Cons.prems have rest: "\<forall>r \<in> set rs. rowSkipped ParseFunc rows r \<or> rowEncodes Encode ParseFunc rows r"
    and this_row: "rowSkipped ParseFunc rows r \<or> rowEncodes Encode ParseFunc rows r"
    by simp_all
  from this_row show ?case
  proof
    assume sk: "rowSkipped ParseFunc rows r"
    then obtain err where p: "ParseFunc (rows\<lparr>rows_lastcols := Inr r\<rparr>) = Inl err"
      by (auto simp: rowSkipped_def split: sum.splits)
    have ne: "\<not> rowEncodes Encode ParseFunc rows r"
      using sk by (rule rowSkipped_not_encodes)
    have ln: "rowLine Encode ParseFunc rows r = None"
      using ne by (simp add: rowEncodes_def)
    let ?st1 = "st\<lparr>rowNum := rowNum st + 1, skippedRows := skippedRows st + 1\<rparr>"
    from Cons.IH[OF rest, of ?st1] obtain st' where
      "extractRows Encode ParseFunc rows rs ?st1 = Ok st'"
      "skippedRows st' = skippedRows ?st1 + length (filter (rowSkipped ParseFunc rows) rs)"
      "totalRowsExtracted st' =
         totalRowsExtracted ?st1 + length (filter (rowEncodes Encode ParseFunc rows) rs)"
      "rowNum st' = rowNum ?st1 + length rs"
      "buf st' = buf ?st1 @ bufferedLines Encode ParseFunc rows rs"
      by blast
    moreover have "extractRows Encode ParseFunc rows (r # rs) st =
                   extractRows Encode ParseFunc rows rs ?st1"
      using p by (simp add: Let_def)
    ultimately show ?thesis
      using sk ne ln by (simp add: bufferedLines_def)
  next
    assume en: "rowEncodes Encode ParseFunc rows r"
    then obtain row saveable line where
      p: "ParseFunc (rows\<lparr>rows_lastcols := Inr r\<rparr>) = Inr row" and
      s: "ToSaveable row = Ok saveable" and e: "Encode saveable = Inr line"
      by (auto simp: rowEncodes_def rowLine_def split: sum.splits go_result.splits)
    have ns: "\<not> rowSkipped ParseFunc rows r"
      using en by (rule rowEncodes_not_skipped)
    have ln: "rowLine Encode ParseFunc rows r = Some line"
      using p s e by (simp add: rowLine_def)
    let ?st1 = "st\<lparr>rowNum := rowNum st + 1, buf := buf st @ line,
                    totalRowsExtracted := totalRowsExtracted st + 1\<rparr>"
    have step: "extractRows Encode ParseFunc rows (r # rs) st =
                extractRows Encode ParseFunc rows rs ?st1"
      using p s e by (simp add: Let_def)
    from Cons.IH[OF rest, of ?st1] obtain st' where
      "extractRows Encode ParseFunc rows rs ?st1 = Ok st'"
      "skippedRows st' = skippedRows ?st1 + length (filter (rowSkipped ParseFunc rows) rs)"
      "totalRowsExtracted st' =
         totalRowsExtracted ?st1 + length (filter (rowEncodes Encode ParseFunc rows) rs)"
      "rowNum st' = rowNum ?st1 + length rs"
      "buf st' = buf ?st1 @ bufferedLines Encode ParseFunc rows rs"
      by blast
    then show ?thesis
      using step en ns ln by (simp add: bufferedLines_def)
  qed
qed


lemma loadBuffer_calls:
  "\<exists>rest. snd (loadBuffer bqClient tableRef payload) =
     LoaderRun_call tableRef payload WriteTruncate # rest"
  by (auto simp: loadBuffer_def split: option.splits)

lemma executeJob_loop_failed:
  assumes "db = Some conn" and "conn (job_Query job) = Inr cursor"
    and "extractRows Encode (job_ParseFunc job) cursor (rows_pending cursor) initial_state = Err e"
  shows "executeJob Encode bqClient datasetID job db = (Err e, [])"
  using assms by (simp add: executeJob_def)

lemma executeJob_loop_done:
  assumes "db = Some conn" and "conn (job_Query job) = Inr cursor"
    and "extractRows Encode (job_ParseFunc job) cursor (rows_pending cursor) initial_state = Ok st"
    and "rows_Err cursor = None"
  shows "executeJob Encode bqClient datasetID job db =
           (if totalRowsExtracted st = 0 then (Ok (), [])
            else loadBuffer bqClient (datasetID, job_BigQueryTable job) (buf st))"
  using assms by (simp add: executeJob_def)

lemma executeJob_calls_only_after_rows:
  assumes "snd (executeJob Encode bqClient datasetID job db) \<noteq> []"
  shows "\<exists>conn cursor st. db = Some conn \<and> conn (job_Query job) = Inr cursor \<and>
           extractRows Encode (job_ParseFunc job) cursor (rows_pending cursor) initial_state
             = Ok st \<and>
           rows_Err cursor = None \<and> 0 < totalRowsExtracted st"
  using assms
  by (auto simp: executeJob_def split: option.splits sum.splits go_result.splits if_splits)

text \<open>
  Claim C3. In the extraction loop a row that fails to parse is not fatal: the loop goes
  on with the next row, with the skip counter (and the row number) one higher and the
  buffer and the count of extracted rows as they were. Over any sequence of rows of which
  each either fails to parse or is serialized, the loop ends normally; it has skipped as
  many rows as failed to parse, extracted as many as were serialized, and the buffer
  holds their lines in the order of the rows. A parsed record that cannot be serialized
  aborts the whole task with an error, whatever rows follow, and nothing is sent to the
  destination. When the cursor reports no error and at least one row was serialized, the
  task goes on to the load of the buffer, however many rows were skipped. Ten rows of
  which the fifth fails to parse are the instance shown after the theorem: nine records,
  one skipped row, and the load is submitted.
\<close>

theorem executeJob_skip_and_abort:
  "(ParseFunc (rows\<lparr>rows_lastcols := Inr r\<rparr>) = Inl perr \<longrightarrow>
      extractRows Encode ParseFunc rows (r # rest) st =
      extractRows Encode ParseFunc rows rest
        (st\<lparr>rowNum := rowNum st + 1, skippedRows := skippedRows st + 1\<rparr>)) \<and>
   ((\<forall>x \<in> set rs. rowSkipped ParseFunc rows x \<or> rowEncodes Encode ParseFunc rows x) \<longrightarrow>
      (\<exists>st'. extractRows Encode ParseFunc rows rs st = Ok st' \<and>
         skippedRows st' = skippedRows st + length (filter (rowSkipped ParseFunc rows) rs) \<and>
         totalRowsExtracted st' =
           totalRowsExtracted st + length (filter (rowEncodes Encode ParseFunc rows) rs) \<and>
         rowNum st' = rowNum st + length rs \<and>
         buf st' = buf st @ bufferedLines Encode ParseFunc rows rs)) \<and>
   (db = Some conn \<and> conn (job_Query job) = Inr cursor \<and>
    rows_pending cursor = pre @ bad # post \<and>
    (\<forall>x \<in> set pre. rowSkipped (job_ParseFunc job) cursor x \<or>
                     rowEncodes Encode (job_ParseFunc job) cursor x) \<and>
    job_ParseFunc job (cursor\<lparr>rows_lastcols := Inr bad\<rparr>) = Inr row \<and>
    ToSaveable row = Ok saveable \<and> Encode saveable = Inl eerr \<longrightarrow>
      executeJob Encode bqClient datasetID job db =
        (Err (''failed to write row to memory buffer: '' @ eerr), [])) \<and>
   (db = Some conn \<and> conn (job_Query job) = Inr cursor \<and> rows_Err cursor = None \<and>
    (\<forall>x \<in> set (rows_pending cursor). rowSkipped (job_ParseFunc job) cursor x \<or>
                     rowEncodes Encode (job_ParseFunc job) cursor x) \<and>
    (\<exists>x \<in> set (rows_pending cursor). rowEncodes Encode (job_ParseFunc job) cursor x) \<longrightarrow>
      executeJob Encode bqClient datasetID job db =
        loadBuffer bqClient (datasetID, job_BigQueryTable job)
          (bufferedLines Encode (job_ParseFunc job) cursor (rows_pending cursor)) \<and>
      (\<exists>calls. snd (executeJob Encode bqClient datasetID job db) =
         LoaderRun_call (datasetID, job_BigQueryTable job)
           (bufferedLines Encode (job_ParseFunc job) cursor (rows_pending cursor))
           WriteTruncate # calls))"
proof (intro conjI impI)
  assume "ParseFunc (rows\<lparr>rows_lastcols := Inr r\<rparr>) = Inl perr"
  then show "extractRows Encode ParseFunc rows (r # rest) st =
      extractRows Encode ParseFunc rows rest
        (st\<lparr>rowNum := rowNum st + 1, skippedRows := skippedRows st + 1\<rparr>)"
    by (rule extractRows_skip)
next
  assume "\<forall>x \<in> set rs. rowSkipped ParseFunc rows x \<or> rowEncodes Encode ParseFunc rows x"
  then show "\<exists>st'. extractRows Encode ParseFunc rows rs st = Ok st' \<and>
         skippedRows st' = skippedRows st + length (filter (rowSkipped ParseFunc rows) rs) \<and>
         totalRowsExtracted st' =
           totalRowsExtracted st + length (filter (rowEncodes Encode ParseFunc rows) rs) \<and>
         rowNum st' = rowNum st + length rs \<and>
         buf st' = buf st @ bufferedLines Encode ParseFunc rows rs"
    by (rule extractRows_counts)
next
  assume a: "db = Some conn \<and> conn (job_Query job) = Inr cursor \<and>
    rows_pending cursor = pre @ bad # post \<and>
    (\<forall>x \<in> set pre. rowSkipped (job_ParseFunc job) cursor x \<or>
                     rowEncodes Encode (job_ParseFunc job) cursor x) \<and>
    job_ParseFunc job (cursor\<lparr>rows_lastcols := Inr bad\<rparr>) = Inr row \<and>
    ToSaveable row = Ok saveable \<and> Encode saveable = Inl eerr"
  then obtain st' where
    pre: "extractRows Encode (job_ParseFunc job) cursor pre initial_state = Ok st'"
    using extractRows_counts[of pre "job_ParseFunc job" cursor Encode initial_state] by blast
  have "extractRows Encode (job_ParseFunc job) cursor (bad # post) st' =
          Err (''failed to write row to memory buffer: '' @ eerr)"
    using a extractRows_encode_failure by blast
  with pre a have "extractRows Encode (job_ParseFunc job) cursor (rows_pending cursor)
      initial_state = Err (''failed to write row to memory buffer: '' @ eerr)"
    by (simp add: extractRows_append)
  with a show "executeJob Encode bqClient datasetID job db =
        (Err (''failed to write row to memory buffer: '' @ eerr), [])"
    using executeJob_loop_failed by blast
next
  assume a: "db = Some conn \<and> conn (job_Query job) = Inr cursor \<and> rows_Err cursor = None \<and>
    (\<forall>x \<in> set (rows_pending cursor). rowSkipped (job_ParseFunc job) cursor x \<or>
                     rowEncodes Encode (job_ParseFunc job) cursor x) \<and>
    (\<exists>x \<in> set (rows_pending cursor). rowEncodes Encode (job_ParseFunc job) cursor x)"
  then obtain st' where
    lp: "extractRows Encode (job_ParseFunc job) cursor (rows_pending cursor) initial_state
           = Ok st'" and
    tot: "totalRowsExtracted st' = totalRowsExtracted initial_state +
            length (filter (rowEncodes Encode (job_ParseFunc job) cursor) (rows_pending cursor))"
      and
    bf: "buf st' = buf initial_state @
           bufferedLines Encode (job_ParseFunc job) cursor (rows_pending cursor)"
    using extractRows_counts[of "rows_pending cursor" "job_ParseFunc job" cursor Encode
            initial_state] by blast
  from a have "filter (rowEncodes Encode (job_ParseFunc job) cursor) (rows_pending cursor) \<noteq> []"
    by (simp add: filter_empty_conv)
  with tot have pos: "totalRowsExtracted st' \<noteq> 0"
    by simp
  from bf have b: "buf st' = bufferedLines Encode (job_ParseFunc job) cursor (rows_pending cursor)"
    by (simp add: initial_state_def)
  from a lp have "executeJob Encode bqClient datasetID job db =
           (if totalRowsExtracted st' = 0 then (Ok (), [])
            else loadBuffer bqClient (datasetID, job_BigQueryTable job) (buf st'))"
    using executeJob_loop_done by blast
  with pos b show e: "executeJob Encode bqClient datasetID job db =
        loadBuffer bqClient (datasetID, job_BigQueryTable job)
          (bufferedLines Encode (job_ParseFunc job) cursor (rows_pending cursor))"
    by simp
  show "\<exists>calls. snd (executeJob Encode bqClient datasetID job db) =
         LoaderRun_call (datasetID, job_BigQueryTable job)
           (bufferedLines Encode (job_ParseFunc job) cursor (rows_pending cursor))
           WriteTruncate # calls"
    unfolding e by (rule loadBuffer_calls)
qed

lemma executeJob_cursor_error:
  assumes "db = Some conn" and "conn (job_Query job) = Inr cursor"
    and "extractRows Encode (job_ParseFunc job) cursor (rows_pending cursor) initial_state = Ok st"
    and "rows_Err cursor = Some err"
  shows "executeJob Encode bqClient datasetID job db =
           (Err (''error during row iteration: '' @ err), [])"
  using assms by (simp add: executeJob_def)

text \<open>
  Claim C4. The executions in which zero rows are extracted are those that reach the test
  of the count with the count at zero: the query succeeds, the loop ends normally and the
  cursor reports no error (an error of the cursor is fatal, as the lemma above shows, and
  so is a failure of the query or of the serialization). In every such execution the
  task returns success and makes no call to the destination. Moreover, in every
  execution, whatever its result, a call to the destination is made only when the loop
  ended normally, the cursor reported no error and at least one row was extracted; so
  with zero rows extracted no load is submitted and the table keeps its contents.
\<close>

theorem executeJob_zero_rows:
  "(db = Some conn \<and> conn (job_Query job) = Inr cursor \<and>
    extractRows Encode (job_ParseFunc job) cursor (rows_pending cursor) initial_state = Ok st \<and>
    totalRowsExtracted st = 0 \<and> rows_Err cursor = None \<longrightarrow>
      executeJob Encode bqClient datasetID job db = (Ok (), [])) \<and>
   (snd (executeJob Encode bqClient datasetID job db) \<noteq> [] \<longrightarrow>
      (\<exists>conn' cursor' st'. db = Some conn' \<and> conn' (job_Query job) = Inr cursor' \<and>
         extractRows Encode (job_ParseFunc job) cursor' (rows_pending cursor') initial_state
           = Ok st' \<and>
         rows_Err cursor' = None \<and> 0 < totalRowsExtracted st'))"
proof (intro conjI impI)
  assume a: "db = Some conn \<and> conn (job_Query job) = Inr cursor \<and>
    extractRows Encode (job_ParseFunc job) cursor (rows_pending cursor) initial_state = Ok st \<and>
    totalRowsExtracted st = 0 \<and> rows_Err cursor = None"
  then have "executeJob Encode bqClient datasetID job db =
           (if totalRowsExtracted st = 0 then (Ok (), [])
            else loadBuffer bqClient (datasetID, job_BigQueryTable job) (buf st))"
    using executeJob_loop_done by blast
  with a show "executeJob Encode bqClient datasetID job db = (Ok (), [])"
    by simp
next
  assume "snd (executeJob Encode bqClient datasetID job db) \<noteq> []"
  then show "\<exists>conn' cursor' st'. db = Some conn' \<and> conn' (job_Query job) = Inr cursor' \<and>
         extractRows Encode (job_ParseFunc job) cursor' (rows_pending cursor') initial_state
           = Ok st' \<and>
         rows_Err cursor' = None \<and> 0 < totalRowsExtracted st'"
    by (rule executeJob_calls_only_after_rows)
qed

subsection \<open>Runs on the sample inputs\<close>

lemma ex_scored_parse:
  "job_ParseFunc ex_job (ex_cursor_of pending err\<lparr>rows_lastcols := Inr (ex_scored k)\<rparr>) =
     Inr \<lparr>ColumnNames = [''id'', ''name'', ''score''],
          Values = [AnyString k, AnyNil, AnyFloat64 OneAndAHalf]\<rparr>"
  by (simp add: ex_job_def ex_strictParse_def ex_cursor_of_def ex_scored_def
        ParseDynamicRow_def Scan_def)

lemma ex_scored_line:
  "rowLine ex_Encode (job_ParseFunc ex_job) (ex_cursor_of pending err) (ex_scored k) =
     Some (ex_line k)"
  by (simp add: rowLine_def ex_scored_parse ToSaveable_def ex_Encode_def ex_line_def)

lemma ex_scored_encodes:
  "rowEncodes ex_Encode (job_ParseFunc ex_job) (ex_cursor_of pending err) (ex_scored k)"
  by (simp add: rowEncodes_def ex_scored_line)

lemma ex_null_id_parse:
  "job_ParseFunc ex_job (ex_cursor_of pending err\<lparr>rows_lastcols := Inr ex_null_id\<rparr>) =
     Inl ''id is NULL''"
  by (simp add: ex_job_def ex_strictParse_def ex_cursor_of_def ex_null_id_def
        ParseDynamicRow_def Scan_def)

lemma ex_null_id_skipped:
  "rowSkipped (job_ParseFunc ex_job) (ex_cursor_of pending err) ex_null_id"
  by (simp add: rowSkipped_def ex_null_id_parse)

lemma ex_null_id_line:
  "rowLine ex_Encode (job_ParseFunc ex_job) (ex_cursor_of pending err) ex_null_id = None"
  using rowSkipped_not_encodes[OF ex_null_id_skipped] by (simp add: rowEncodes_def)

lemma ex_scored_not_skipped:
  "\<not> rowSkipped (job_ParseFunc ex_job) (ex_cursor_of pending err) (ex_scored k)"
  using rowEncodes_not_skipped[OF ex_scored_encodes] .

lemma ex_null_id_not_encodes:
  "\<not> rowEncodes ex_Encode (job_ParseFunc ex_job) (ex_cursor_of pending err) ex_null_id"
  using rowSkipped_not_encodes[OF ex_null_id_skipped] .

lemma ex_nan_parse:
  "job_ParseFunc ex_job (ex_cursor_of pending err\<lparr>rows_lastcols := Inr ex_nan\<rparr>) =
     Inr \<lparr>ColumnNames = [''id'', ''name'', ''score''],
          Values = [AnyString ''3'', AnyNil, AnyFloat64 NaN]\<rparr>"
  by (simp add: ex_job_def ex_strictParse_def ex_cursor_of_def ex_nan_def
        ParseDynamicRow_def Scan_def)

lemma ex_pending10_rows:
  "\<forall>x \<in> set ex_pending10.
     rowSkipped (job_ParseFunc ex_job) (ex_cursor_of pending err) x \<or>
     rowEncodes ex_Encode (job_ParseFunc ex_job) (ex_cursor_of pending err) x"
  by (simp add: ex_pending10_def ex_scored_encodes ex_null_id_skipped)

lemma ex_pending10_lines:
  "bufferedLines ex_Encode (job_ParseFunc ex_job) (ex_cursor_of pending err) ex_pending10 =
     ex_nine_lines"
  by (simp add: bufferedLines_def ex_pending10_def ex_scored_line ex_null_id_line
        ex_nine_lines_def)

lemma ex_cursor_of_simps:
  "rows_pending (ex_cursor_of pending err) = pending" "rows_Err (ex_cursor_of pending err) = err"
  by (simp_all add: ex_cursor_of_def)

lemma ex_job_table: "job_BigQueryTable ex_job = ''scores''"
  by (simp add: ex_job_def)

lemma ex_conn_query: "ex_conn cursor (job_Query ex_job) = Inr cursor"
  by (simp add: ex_conn_def ex_job_def)

theorem executeJob_skip_and_abort_witness:
  "extractRows ex_Encode (job_ParseFunc ex_job) (ex_cursor_of ex_pending10 None) ex_pending10
     initial_state =
     Ok \<lparr>buf = ex_nine_lines, totalRowsExtracted = 9,
         rowNum = 10, skippedRows = 1\<rparr> \<and>
   executeJob ex_Encode (ex_client ex_ordinary) ''ds'' ex_job
     (Some (ex_conn (ex_cursor_of ex_pending10 None))) =
     (Ok (),
      [LoaderRun_call (''ds'', ''scores'') ex_nine_lines
         WriteTruncate,
       JobWait_call (''ds'', ''scores'')]) \<and>
   executeJob ex_Encode (ex_client ex_ordinary) ''ds'' ex_job
     (Some (ex_conn (ex_cursor_of [ex_null_id, ex_scored ''2'', ex_nan, ex_scored ''4''] None))) =
     (Err ''failed to write row to memory buffer: json: unsupported value: NaN'', []) \<and>
   extractRows ex_Encode (job_ParseFunc ex_job) (ex_cursor_of [ex_null_id] None) [ex_null_id]
     initial_state =
     Ok \<lparr>buf = [], totalRowsExtracted = 0, rowNum = 1, skippedRows = 1\<rparr>"
proof -
  let ?P = "job_ParseFunc ex_job"
  let ?c = "ex_cursor_of ex_pending10 None"
  let ?c2 = "ex_cursor_of [ex_null_id, ex_scored ''2'', ex_nan, ex_scored ''4''] None"
  let ?row = "\<lparr>ColumnNames = [''id'', ''name'', ''score''],
          Values = [AnyString ''3'', AnyNil, AnyFloat64 NaN :: (nat, sample_float) any]\<rparr>"
  let ?sv = "[''id'' \<mapsto> AnyString ''3'', ''name'' \<mapsto> AnyNil,
              ''score'' \<mapsto> (AnyFloat64 NaN :: (nat, sample_float) any)]"
  note T1 = executeJob_skip_and_abort
    [where ParseFunc = ?P and rows = ?c and Encode = ex_Encode and rs = ex_pending10
       and st = initial_state and db = "Some (ex_conn ?c)" and conn = "ex_conn ?c"
       and job = ex_job and cursor = ?c and datasetID = "''ds''"
       and bqClient = "ex_client ex_ordinary"]
  note T2 = executeJob_skip_and_abort
    [where Encode = ex_Encode and db = "Some (ex_conn ?c2)" and conn = "ex_conn ?c2"
       and job = ex_job and cursor = ?c2 and datasetID = "''ds''"
       and bqClient = "ex_client ex_ordinary" and pre = "[ex_null_id, ex_scored ''2'']"
       and bad = ex_nan and post = "[ex_scored ''4'']" and row = ?row
       and saveable = ?sv and eerr = "''json: unsupported value: NaN''"]
  note T3 = executeJob_skip_and_abort
    [where ParseFunc = ?P and rows = "ex_cursor_of [ex_null_id] None" and Encode = ex_Encode
       and r = ex_null_id and rest = "[]" and st = initial_state and perr = "''id is NULL''"]
  \<comment> \<open>the counters and the buffer after ten rows\<close>
  from T1[THEN conjunct2, THEN conjunct1, THEN mp, OF ex_pending10_rows]
  obtain st' where
    lp: "extractRows ex_Encode ?P ?c ex_pending10 initial_state = Ok st'" and
    sk: "skippedRows st' = skippedRows initial_state + length (filter (rowSkipped ?P ?c) ex_pending10)" and
    tt: "totalRowsExtracted st' =
           totalRowsExtracted initial_state + length (filter (rowEncodes ex_Encode ?P ?c) ex_pending10)" and
    rn: "rowNum st' = rowNum initial_state + length ex_pending10" and
    bf: "buf st' = buf initial_state @ bufferedLines ex_Encode ?P ?c ex_pending10"
    by (elim exE conjE)
  have f1: "length (filter (rowSkipped ?P ?c) ex_pending10) = 1"
    by (simp add: ex_pending10_def ex_null_id_skipped ex_scored_not_skipped)
  have f2: "length (filter (rowEncodes ex_Encode ?P ?c) ex_pending10) = 9"
    by (simp add: ex_pending10_def ex_null_id_not_encodes ex_scored_encodes)
  have f3: "length ex_pending10 = 10"
    by (simp add: ex_pending10_def)
  have st': "st' = \<lparr>buf = ex_nine_lines,
      totalRowsExtracted = 9, rowNum = 10, skippedRows = 1\<rparr>"
    using sk tt rn bf f1 f2 f3 by (simp add: initial_state_def ex_pending10_lines)
  have w1: "extractRows ex_Encode ?P ?c ex_pending10 initial_state =
     Ok \<lparr>buf = ex_nine_lines, totalRowsExtracted = 9,
         rowNum = 10, skippedRows = 1\<rparr>"
    using lp st' by simp
  \<comment> \<open>the task goes on to the load\<close>
  have h4: "Some (ex_conn ?c) = Some (ex_conn ?c) \<and> ex_conn ?c (job_Query ex_job) = Inr ?c \<and>
      rows_Err ?c = None \<and>
      (\<forall>x \<in> set (rows_pending ?c). rowSkipped ?P ?c x \<or> rowEncodes ex_Encode ?P ?c x) \<and>
      (\<exists>x \<in> set (rows_pending ?c). rowEncodes ex_Encode ?P ?c x)"
    using ex_pending10_rows[of ex_pending10 None] ex_scored_encodes[of ex_pending10 None "''1''"]
    by (simp add: ex_conn_query ex_cursor_of_simps) (simp add: ex_pending10_def)
  from T1[THEN conjunct2, THEN conjunct2, THEN conjunct2, THEN mp, OF h4, THEN conjunct1]
  have w2: "executeJob ex_Encode (ex_client ex_ordinary) ''ds'' ex_job (Some (ex_conn ?c)) =
     (Ok (),
      [LoaderRun_call (''ds'', ''scores'') ex_nine_lines
         WriteTruncate,
       JobWait_call (''ds'', ''scores'')])"
    by (simp add: ex_cursor_of_simps ex_pending10_lines loadBuffer_def ex_client_def
          ex_job_table)
  \<comment> \<open>a record that cannot be serialized aborts the task\<close>
  have h3: "Some (ex_conn ?c2) = Some (ex_conn ?c2) \<and> ex_conn ?c2 (job_Query ex_job) = Inr ?c2 \<and>
      rows_pending ?c2 = [ex_null_id, ex_scored ''2''] @ ex_nan # [ex_scored ''4''] \<and>
      (\<forall>x \<in> set [ex_null_id, ex_scored ''2'']. rowSkipped ?P ?c2 x \<or> rowEncodes ex_Encode ?P ?c2 x) \<and>
      ?P (?c2\<lparr>rows_lastcols := Inr ex_nan\<rparr>) = Inr ?row \<and>
      ToSaveable ?row = Ok ?sv \<and> ex_Encode ?sv = Inl ''json: unsupported value: NaN''"
    by (simp add: ex_conn_query ex_cursor_of_simps ex_null_id_skipped ex_scored_encodes
          ex_nan_parse ToSaveable_def ex_Encode_def)
  from T2[THEN conjunct2, THEN conjunct2, THEN conjunct1, THEN mp, OF h3]
  have w3: "executeJob ex_Encode (ex_client ex_ordinary) ''ds'' ex_job (Some (ex_conn ?c2)) =
     (Err ''failed to write row to memory buffer: json: unsupported value: NaN'', [])"
    by simp
  \<comment> \<open>one row that fails to parse\<close>
  have h1: "?P (ex_cursor_of [ex_null_id] None\<lparr>rows_lastcols := Inr ex_null_id\<rparr>) =
      Inl ''id is NULL''"
    by (rule ex_null_id_parse)
  from T3[THEN conjunct1, THEN mp, OF h1]
  have w4: "extractRows ex_Encode ?P (ex_cursor_of [ex_null_id] None) [ex_null_id] initial_state =
     Ok \<lparr>buf = [], totalRowsExtracted = 0, rowNum = 1, skippedRows = 1\<rparr>"
    by (simp add: initial_state_def)
  from w1 w2 w3 w4 show ?thesis
    by (intro conjI)
qed


lemma ex_loop10:
  "extractRows ex_Encode (job_ParseFunc ex_job) (ex_cursor_of ex_pending10 None) ex_pending10
     initial_state =
     Ok \<lparr>buf = ex_nine_lines, totalRowsExtracted = 9,
         rowNum = 10, skippedRows = 1\<rparr>"
proof -
  let ?P = "job_ParseFunc ex_job"
  let ?c = "ex_cursor_of ex_pending10 None"
  from extractRows_counts[OF ex_pending10_rows, of ex_pending10 None initial_state]
  obtain st' where
    lp: "extractRows ex_Encode ?P ?c ex_pending10 initial_state = Ok st'" and
    sk: "skippedRows st' = skippedRows initial_state + length (filter (rowSkipped ?P ?c) ex_pending10)" and
    tt: "totalRowsExtracted st' =
           totalRowsExtracted initial_state + length (filter (rowEncodes ex_Encode ?P ?c) ex_pending10)" and
    rn: "rowNum st' = rowNum initial_state + length ex_pending10" and
    bf: "buf st' = buf initial_state @ bufferedLines ex_Encode ?P ?c ex_pending10"
    by (elim exE conjE)
  have f1: "length (filter (rowSkipped ?P ?c) ex_pending10) = 1"
    by (simp add: ex_pending10_def ex_null_id_skipped ex_scored_not_skipped)
  have f2: "length (filter (rowEncodes ex_Encode ?P ?c) ex_pending10) = 9"
    by (simp add: ex_pending10_def ex_null_id_not_encodes ex_scored_encodes)
  have f3: "length ex_pending10 = 10"
    by (simp add: ex_pending10_def)
  have "st' = \<lparr>buf = ex_nine_lines,
      totalRowsExtracted = 9, rowNum = 10, skippedRows = 1\<rparr>"
    using sk tt rn bf f1 f2 f3 by (simp add: initial_state_def ex_pending10_lines)
  with lp show ?thesis by simp
qed

lemma ex_run10:
  "executeJob ex_Encode (ex_client ex_ordinary) ''ds'' ex_job
     (Some (ex_conn (ex_cursor_of ex_pending10 None))) =
     (Ok (),
      [LoaderRun_call (''ds'', ''scores'') ex_nine_lines
         WriteTruncate,
       JobWait_call (''ds'', ''scores'')])"
  using executeJob_loop_done[of "Some (ex_conn (ex_cursor_of ex_pending10 None))"
          "ex_conn (ex_cursor_of ex_pending10 None)" ex_job "ex_cursor_of ex_pending10 None"
          ex_Encode _ "ex_client ex_ordinary" "''ds''"]
        ex_loop10
  by (simp add: ex_conn_query ex_cursor_of_simps loadBuffer_def ex_client_def ex_job_table)

lemma ex_loop_all_skipped:
  "extractRows ex_Encode (job_ParseFunc ex_job) (ex_cursor_of [ex_null_id, ex_null_id] None)
     [ex_null_id, ex_null_id] initial_state =
     Ok \<lparr>buf = [], totalRowsExtracted = 0, rowNum = 2, skippedRows = 2\<rparr>"
  by (simp add: ex_null_id_parse initial_state_def Let_def)

theorem executeJob_zero_rows_witness:
  "executeJob ex_Encode (ex_client ex_ordinary) ''ds'' ex_job
     (Some (ex_conn (ex_cursor_of [ex_null_id, ex_null_id] None))) = (Ok (), []) \<and>
   executeJob ex_Encode (ex_client ex_ordinary) ''ds'' ex_job
     (Some (ex_conn (ex_cursor_of [] None))) = (Ok (), []) \<and>
   snd (executeJob ex_Encode (ex_client ex_ordinary) ''ds'' ex_job
     (Some (ex_conn (ex_cursor_of ex_pending10 None)))) \<noteq> [] \<and>
   (\<exists>conn' cursor' st'.
      Some (ex_conn (ex_cursor_of ex_pending10 None)) = Some conn' \<and>
      conn' (job_Query ex_job) = Inr cursor' \<and>
      extractRows ex_Encode (job_ParseFunc ex_job) cursor' (rows_pending cursor') initial_state
        = Ok st' \<and>
      rows_Err cursor' = None \<and> 0 < totalRowsExtracted st')"
proof -
  let ?c2 = "ex_cursor_of [ex_null_id, ex_null_id] None"
  let ?c0 = "ex_cursor_of [] None"
  let ?c10 = "ex_cursor_of ex_pending10 None"
  let ?st2 = "\<lparr>buf = [], totalRowsExtracted = 0, rowNum = 2, skippedRows = 2\<rparr>"
  note A = executeJob_zero_rows
    [where db = "Some (ex_conn ?c2)" and conn = "ex_conn ?c2" and job = ex_job
       and cursor = ?c2 and Encode = ex_Encode and st = ?st2
       and bqClient = "ex_client ex_ordinary" and datasetID = "''ds''"]
  note B = executeJob_zero_rows
    [where db = "Some (ex_conn ?c0)" and conn = "ex_conn ?c0" and job = ex_job
       and cursor = ?c0 and Encode = ex_Encode and st = initial_state
       and bqClient = "ex_client ex_ordinary" and datasetID = "''ds''"]
  note C = executeJob_zero_rows
    [where db = "Some (ex_conn ?c10)" and job = ex_job and Encode = ex_Encode
       and bqClient = "ex_client ex_ordinary" and datasetID = "''ds''"]
  have hA: "Some (ex_conn ?c2) = Some (ex_conn ?c2) \<and> ex_conn ?c2 (job_Query ex_job) = Inr ?c2 \<and>
      extractRows ex_Encode (job_ParseFunc ex_job) ?c2 (rows_pending ?c2) initial_state = Ok ?st2 \<and>
      totalRowsExtracted ?st2 = 0 \<and> rows_Err ?c2 = None"
    by (simp add: ex_conn_query ex_cursor_of_simps ex_loop_all_skipped del: extractRows.simps)
  have hB: "Some (ex_conn ?c0) = Some (ex_conn ?c0) \<and> ex_conn ?c0 (job_Query ex_job) = Inr ?c0 \<and>
      extractRows ex_Encode (job_ParseFunc ex_job) ?c0 (rows_pending ?c0) initial_state
        = Ok initial_state \<and>
      totalRowsExtracted initial_state = 0 \<and> rows_Err ?c0 = None"
    by (simp add: ex_conn_query ex_cursor_of_simps initial_state_def)
  have hC: "snd (executeJob ex_Encode (ex_client ex_ordinary) ''ds'' ex_job (Some (ex_conn ?c10))) \<noteq> []"
    by (simp add: ex_run10)
  from A[THEN conjunct1, THEN mp, OF hA] B[THEN conjunct1, THEN mp, OF hB] hC
       C[THEN conjunct2, THEN mp, OF hC]
  show ?thesis
    by (intro conjI)
qed

end
